theory Spec2Isabelle
  imports Complex_Main "HOL-Library.Word"
begin

section \<open>JavaScript values used by server.js\<close>

text \<open>
  A JavaScript string is a sequence of UTF-16 code units, so a string is a list of 16-bit
  words: \<open>length\<close>, \<open>slice\<close> and \<open>trim\<close> count and inspect code units. \<open>lit\<close> embeds an
  ASCII literal of the source.

  A number is a binary64 value: \<open>Num r\<close> for the finite value \<open>r\<close>, or one of the three
  non-finite values. The sign of zero is not kept; nothing in server.js observes it.
\<close>

type_synonym jschar = "16 word"
type_synonym jsstring = "jschar list"

definition lit :: "string \<Rightarrow> jsstring" where
  "lit s = map of_char s"

datatype jsnum = Num real | NaN | PosInf | NegInf

datatype jsval =
    JUndefined
  | JNull
  | JBool bool
  | JNum real
  | JStr jsstring
  | JArr "jsval list"
  | JObj "(jsstring \<times> jsval) list"

text \<open>
  The parts of the platform that server.js calls and that are not written in it, each on
  the inputs where its result is not spelled out below.
  \<^item> \<open>JSON_parse\<close> is \<open>JSON.parse\<close> on a text that starts with an opening brace: such a text
    either raises SyntaxError (\<open>None\<close>) or denotes an object, given by its properties with
    the later of two equal keys already winning.
  \<^item> \<open>object_to_primitive\<close> converts an array or an object to a primitive, which for a value
    that came out of \<open>JSON.parse\<close> is the string its \<open>toString\<close> returns, whatever the hint:
    \<open>valueOf\<close> never yields a primitive there. It is \<open>None\<close> when the conversion throws
    TypeError, as it does for an object with an own property \<open>toString\<close>, which is not
    callable.
  \<^item> \<open>string_to_number\<close>, \<open>parseInt_string\<close> and \<open>number_to_string\<close> are \<open>Number(s)\<close> and
    \<open>parseInt(s, 10)\<close> on a string and \<open>String(n)\<close> on a number; none of them throws.
  \<^item> \<open>fp_mul\<close>, \<open>fp_add\<close> and \<open>fp_floor_div1000\<close> are the binary64 product and sum of two
    finite numbers and \<open>Math.floor(x / 1000)\<close>, where rounding (or overflow) occurs.
\<close>

record js_env =
  JSON_parse :: "jsstring \<Rightarrow> (jsstring \<times> jsval) list option"
  JSON_stringify :: "jsval \<Rightarrow> jsstring"
  object_to_primitive :: "jsval \<Rightarrow> jsstring option"
  string_to_number :: "jsstring \<Rightarrow> jsnum"
  parseInt_string :: "jsstring \<Rightarrow> jsnum"
  number_to_string :: "jsnum \<Rightarrow> jsstring"
  fp_mul :: "real \<Rightarrow> real \<Rightarrow> jsnum"
  fp_add :: "real \<Rightarrow> real \<Rightarrow> jsnum"
  fp_floor_div1000 :: "real \<Rightarrow> jsnum"

text \<open>Truthiness, as tested by \<open>!v\<close> and \<open>v || w\<close>.\<close>

fun truthy :: "jsval \<Rightarrow> bool" where
  "truthy JUndefined = False"
| "truthy JNull = False"
| "truthy (JBool b) = b"
| "truthy (JNum r) = (r \<noteq> 0)"
| "truthy (JStr s) = (s \<noteq> [])"
| "truthy (JArr xs) = True"
| "truthy (JObj kvs) = True"

definition js_or :: "jsval \<Rightarrow> jsval \<Rightarrow> jsval" where
  "js_or a b = (if truthy a then a else b)"

text \<open>\<open>a ?? b\<close>.\<close>

definition nullish :: "jsval \<Rightarrow> jsval \<Rightarrow> jsval" where
  "nullish a b = (if a = JUndefined \<or> a = JNull then b else a)"

text \<open>
  \<open>Number(v)\<close>, also applied implicitly by \<open>isNaN(v)\<close> and \<open>v <= 0\<close>. \<open>None\<close>: the conversion
  throws TypeError. An array or an object is converted to a primitive first.
\<close>

fun to_number :: "js_env \<Rightarrow> jsval \<Rightarrow> jsnum option" where
  "to_number env JUndefined = Some NaN"
| "to_number env JNull = Some (Num 0)"
| "to_number env (JBool b) = Some (Num (if b then 1 else 0))"
| "to_number env (JNum r) = Some (Num r)"
| "to_number env (JStr s) = Some (string_to_number env s)"
| "to_number env v = map_option (string_to_number env) (object_to_primitive env v)"

text \<open>\<open>String(v)\<close>, also applied by template literals. \<open>None\<close>: it throws TypeError.\<close>

fun to_string :: "js_env \<Rightarrow> jsval \<Rightarrow> jsstring option" where
  "to_string env JUndefined = Some (lit ''undefined'')"
| "to_string env JNull = Some (lit ''null'')"
| "to_string env (JBool b) = Some (if b then lit ''true'' else lit ''false'')"
| "to_string env (JNum r) = Some (number_to_string env (Num r))"
| "to_string env (JStr s) = Some s"
| "to_string env v = object_to_primitive env v"

text \<open>
  \<open>parseInt(v, 10)\<close>: the argument is converted to a string (\<open>None\<close> when that throws) and
  its leading optionally signed decimal digits are read. \<open>undefined\<close>, \<open>null\<close> and the
  booleans print without a leading digit. A number prints in plain decimal notation when
  its magnitude is in \<open>[1e-6, 1e21)\<close>, so its integer part is read; outside that range it
  prints in exponent notation.
\<close>

definition trunc :: "real \<Rightarrow> int" where
  "trunc r = (if 0 \<le> r then \<lfloor>r\<rfloor> else \<lceil>r\<rceil>)"

fun parseInt10 :: "js_env \<Rightarrow> jsval \<Rightarrow> jsnum option" where
  "parseInt10 env JUndefined = Some NaN"
| "parseInt10 env JNull = Some NaN"
| "parseInt10 env (JBool b) = Some NaN"
| "parseInt10 env (JNum r) =
     Some (if r = 0 then Num 0
           else if 1 / 10 ^ 6 \<le> \<bar>r\<bar> \<and> \<bar>r\<bar> < 10 ^ 21 then Num (of_int (trunc r))
           else parseInt_string env (number_to_string env (Num r)))"
| "parseInt10 env (JStr s) = Some (parseInt_string env s)"
| "parseInt10 env v = map_option (parseInt_string env) (object_to_primitive env v)"

subsection \<open>Arithmetic and comparison on numbers\<close>

text \<open>
  A binary64 operation returns the exact result rounded to the nearest binary64 value, so
  it returns the exact result whenever that is itself a binary64 value. Every integer of
  magnitude at most \<open>2 ^ 53\<close> is one: such results are computed here, and every other
  result of finite operands is the platform's.
\<close>

definition exact_int :: "real \<Rightarrow> bool" where
  "exact_int r \<longleftrightarrow> real_of_int \<lfloor>r\<rfloor> = r \<and> \<bar>r\<bar> \<le> 2 ^ 53"

definition is_nan :: "jsnum \<Rightarrow> bool" where
  "is_nan x = (x = NaN)"

fun js_mul :: "js_env \<Rightarrow> jsnum \<Rightarrow> jsnum \<Rightarrow> jsnum" where
  "js_mul env (Num a) (Num b) = (if exact_int (a * b) then Num (a * b) else fp_mul env a b)"
| "js_mul env NaN y = NaN"
| "js_mul env x NaN = NaN"
| "js_mul env (Num a) PosInf = (if a = 0 then NaN else if 0 < a then PosInf else NegInf)"
| "js_mul env (Num a) NegInf = (if a = 0 then NaN else if 0 < a then NegInf else PosInf)"
| "js_mul env PosInf (Num b) = (if b = 0 then NaN else if 0 < b then PosInf else NegInf)"
| "js_mul env NegInf (Num b) = (if b = 0 then NaN else if 0 < b then NegInf else PosInf)"
| "js_mul env PosInf PosInf = PosInf"
| "js_mul env NegInf NegInf = PosInf"
| "js_mul env PosInf NegInf = NegInf"
| "js_mul env NegInf PosInf = NegInf"

fun js_add :: "js_env \<Rightarrow> jsnum \<Rightarrow> jsnum \<Rightarrow> jsnum" where
  "js_add env (Num a) (Num b) = (if exact_int (a + b) then Num (a + b) else fp_add env a b)"
| "js_add env NaN y = NaN"
| "js_add env x NaN = NaN"
| "js_add env PosInf NegInf = NaN"
| "js_add env NegInf PosInf = NaN"
| "js_add env PosInf y = PosInf"
| "js_add env NegInf y = NegInf"
| "js_add env x PosInf = PosInf"
| "js_add env x NegInf = NegInf"

text \<open>Negation is exact, and \<open>x - y\<close> is \<open>x + (-y)\<close>.\<close>

fun js_neg :: "jsnum \<Rightarrow> jsnum" where
  "js_neg (Num a) = Num (- a)"
| "js_neg NaN = NaN"
| "js_neg PosInf = NegInf"
| "js_neg NegInf = PosInf"

definition js_sub :: "js_env \<Rightarrow> jsnum \<Rightarrow> jsnum \<Rightarrow> jsnum" where
  "js_sub env x y = js_add env x (js_neg y)"

text \<open>
  \<open>Math.floor(x / 1000)\<close>. For an integer \<open>x\<close> of magnitude at most \<open>10 ^ 15\<close> the quotient is
  below \<open>2 ^ 40\<close> in magnitude, where binary64 values are at most \<open>2 ^ -13\<close> apart: the rounded
  quotient is an integer when the exact one is, and otherwise stays more than \<open>0.0009\<close>
  away from the two integers around the exact one (which is at least \<open>0.001\<close> away from
  them), so the floor of the rounded quotient is the floor of the exact quotient.
\<close>

fun js_floor_div1000 :: "js_env \<Rightarrow> jsnum \<Rightarrow> jsnum" where
  "js_floor_div1000 env (Num a) =
     (if exact_int a \<and> \<bar>a\<bar> \<le> 10 ^ 15 then Num (of_int \<lfloor>a / 1000\<rfloor>)
      else fp_floor_div1000 env a)"
| "js_floor_div1000 env x = x"

text \<open>\<open>Math.max(0, x)\<close>: \<open>NaN\<close> if the argument is \<open>NaN\<close>; no rounding is involved.\<close>

fun js_max0 :: "jsnum \<Rightarrow> jsnum" where
  "js_max0 (Num a) = Num (max 0 a)"
| "js_max0 NaN = NaN"
| "js_max0 PosInf = PosInf"
| "js_max0 NegInf = Num 0"

text \<open>\<open>x <= y\<close> and \<open>x >= y\<close> on numbers: false as soon as one side is \<open>NaN\<close>.\<close>

fun js_le :: "jsnum \<Rightarrow> jsnum \<Rightarrow> bool" where
  "js_le (Num a) (Num b) = (a \<le> b)"
| "js_le NaN y = False"
| "js_le x NaN = False"
| "js_le NegInf y = True"
| "js_le x PosInf = True"
| "js_le x y = False"

definition js_ge :: "jsnum \<Rightarrow> jsnum \<Rightarrow> bool" where
  "js_ge x y = js_le y x"

text \<open>\<open>Number.isFinite\<close>.\<close>

fun is_finite :: "jsnum \<Rightarrow> bool" where
  "is_finite (Num a) = True"
| "is_finite x = False"

subsection \<open>Strings\<close>

text \<open>
  White space and line terminators: the code units removed by \<open>trim()\<close> and matched by
  \<open>\s\<close> in a regular expression.
\<close>

definition is_ws :: "jschar \<Rightarrow> bool" where
  "is_ws c \<longleftrightarrow>
     c \<in> set [0x09, 0x0A, 0x0B, 0x0C, 0x0D, 0x20, 0xA0, 0x1680, 0x2028, 0x2029,
              0x202F, 0x205F, 0x3000, 0xFEFF]
     \<or> (0x2000 \<le> c \<and> c \<le> 0x200A)"

definition trim :: "jsstring \<Rightarrow> jsstring" where
  "trim s = rev (dropWhile is_ws (rev (dropWhile is_ws s)))"

text \<open>\<open>s.split(/\s+/)\<close>: the pieces between maximal runs of white space.\<close>

fun split_ws :: "jsstring \<Rightarrow> jsstring list" where
  "split_ws [] = [[]]"
| "split_ws (c # cs) =
     (if is_ws c then
        (case cs of
           [] \<Rightarrow> [] # split_ws cs
         | d # ds \<Rightarrow> if is_ws d then split_ws cs else [] # split_ws cs)
      else
        (case split_ws cs of
           [] \<Rightarrow> [[c]]
         | p # ps \<Rightarrow> (c # p) # ps))"

text \<open>\<open>xs.join(sep)\<close> on strings.\<close>

fun join :: "jsstring \<Rightarrow> jsstring list \<Rightarrow> jsstring" where
  "join sep [] = []"
| "join sep [x] = x"
| "join sep (x # y # ys) = x @ sep @ join sep (y # ys)"

section \<open>Configuration, collaborators and responses\<close>

text \<open>The constants read from the process environment at start-up.\<close>

record config =
  OPENAI_MODEL :: jsstring
  OPENAI_TTS_MODEL :: jsstring
  OPENAI_TTS_VOICE :: jsstring
  OPENAI_TTS_SPEED :: jsnum

record message =
  role :: jsstring
  content :: jsstring

text \<open>The argument of \<open>openai.chat.completions.create\<close>.\<close>

record chat_request =
  model :: jsstring
  messages :: "message list"
  temperature :: real

text \<open>
  What a completion call gives back: it throws (also when the reply has no first choice),
  or \<open>resp.choices[0].message.content\<close> is a string or \<open>null\<close>.
\<close>

datatype completion = Failed | Reply "jsstring option"

text \<open>The argument of \<open>openai.audio.speech.create\<close>.\<close>

record speech_request =
  tts_model :: jsstring
  tts_voice :: jsstring
  input :: jsstring
  tts_instructions :: jsstring
  tts_speed :: jsnum
  response_format :: jsstring

text \<open>The speech call, with the read of its array buffer: it throws or yields the bytes.\<close>

datatype speech_reply = SpeechFailed | Audio "8 word list"

section \<open>Session state\<close>

record profile_obj =
  type :: jsval
  resume :: jsval

record history_item =
  question :: jsval
  answer :: jsstring
  weakness :: jsstring
  askedAt :: "int option"
  answeredAt :: int
  source :: jsstring

text \<open>
  \<open>req.session\<close>, as a handler sees it: every property is absent (\<open>None\<close>,
  \<open>JUndefined\<close>) until a handler assigns it. \<open>current_question_started_at\<close> is only ever
  read through \<open>|| null\<close>, which does not tell \<open>undefined\<close> from \<open>null\<close>, so both are
  \<open>None\<close>. How the session middleware saves the object after a request and reloads it for
  the next one is outside server.js and is not modelled.
\<close>

record session =
  profile :: "profile_obj option"
  duration_seconds :: "jsnum option"
  start_time :: "int option"
  personality :: "jsstring option"
  history :: "history_item list option"
  current_question :: jsval
  current_question_started_at :: "int option"

text \<open>
  What a handler writes to the client. \<open>ErrorJson n msg\<close> is
  \<open>res.status(n).json({error: msg})\<close>; the other JSON bodies go out with status 200.
  \<open>Unhandled\<close>: an exception left the handler, so server.js wrote no response (what
  the client then gets is up to Express).
\<close>

datatype response =
    ErrorJson nat jsstring
  | SuccessJson
  | EndJson
  | QuestionJson jsval
  | TimeUpJson bool
  | TranscriptJson profile_obj "jsstring option" "int option" "jsnum option" "history_item list"
  | ResultJson jsval jsval jsval "history_item list"
  | AudioMpeg "8 word list"
  | Unhandled

section \<open>Helpers of server.js\<close>

definition PERSONALITIES :: "jsstring list" where
  "PERSONALITIES =
     [lit ''stern and no-nonsense'',
      lit ''friendly but probing'',
      lit ''dryly sarcastic'',
      lit ''warm and encouraging'',
      lit ''highly critical'']"

text \<open>
  \<open>rnd\<close> is the value of \<open>Math.random()\<close>, a number in \<open>[0, 1)\<close>. Reading an array out of
  range gives \<open>undefined\<close>.
\<close>

definition getRandomPersonality :: "real \<Rightarrow> jsstring option" where
  "getRandomPersonality rnd =
     (let i = \<lfloor>rnd * real (length PERSONALITIES)\<rfloor>
      in if 0 \<le> i \<and> i < int (length PERSONALITIES) then Some (PERSONALITIES ! nat i) else None)"

text \<open>
  \<open>str.match(/\{[\s\S]*\}/)\<close>: the leftmost match starts at the first opening brace and,
  the star being greedy, ends at the last closing brace of the string; there is a match
  exactly when a closing brace follows the first opening brace.
\<close>

definition regex_braces :: "jsstring \<Rightarrow> jsstring option" where
  "regex_braces str =
     (case dropWhile (\<lambda>c. c \<noteq> 0x7B) str of
        [] \<Rightarrow> None
      | b # rest \<Rightarrow>
          if 0x7D \<in> set rest
          then Some (b # rev (dropWhile (\<lambda>c. c \<noteq> 0x7D) (rev rest)))
          else None)"

text \<open>The result is an object, given by its properties; \<open>{}\<close> is the empty list.\<close>

definition extractJson :: "js_env \<Rightarrow> jsstring \<Rightarrow> (jsstring \<times> jsval) list" where
  "extractJson env str =
     (case regex_braces str of
        None \<Rightarrow> []
      | Some m \<Rightarrow> (case JSON_parse env m of None \<Rightarrow> [] | Some obj \<Rightarrow> obj))"

text \<open>Reading a property of a parsed object: \<open>undefined\<close> when it is absent.\<close>

definition get_prop :: "(jsstring \<times> jsval) list \<Rightarrow> jsstring \<Rightarrow> jsval" where
  "get_prop obj k = (case map_of obj k of None \<Rightarrow> JUndefined | Some v \<Rightarrow> v)"

text \<open>\<open>None\<close>: \<open>String(s || '')\<close> throws.\<close>

definition wordsCount :: "js_env \<Rightarrow> jsval \<Rightarrow> nat option" where
  "wordsCount env s =
     map_option (\<lambda>t. length (filter (\<lambda>p. p \<noteq> []) (split_ws (trim t))))
       (to_string env (js_or s (JStr [])))"

text \<open>A number property that may be absent, used in arithmetic.\<close>

definition opt_number :: "jsnum option \<Rightarrow> jsnum" where
  "opt_number x = (case x of None \<Rightarrow> NaN | Some n \<Rightarrow> n)"

text \<open>\<open>req.session.start_time + req.session.duration_seconds * 1000\<close>.\<close>

definition end_time :: "js_env \<Rightarrow> session \<Rightarrow> jsnum" where
  "end_time env s =
     js_add env (opt_number (map_option (\<lambda>t. Num (of_int t)) (start_time s)))
                (js_mul env (opt_number (duration_seconds s)) (Num 1000))"

text \<open>\<open>now\<close> is the value of \<open>Date.now()\<close> read inside the function.\<close>

definition secondsLeft :: "js_env \<Rightarrow> session \<Rightarrow> int \<Rightarrow> jsnum" where
  "secondsLeft env s now =
     js_max0 (js_floor_div1000 env (js_sub env (end_time env s) (Num (of_int now))))"

text \<open>
  The text of one exchange, as both prompts print it; \<open>None\<close> when printing the question
  throws.
\<close>

definition exchange_text :: "js_env \<Rightarrow> history_item \<Rightarrow> jsstring option" where
  "exchange_text env h =
     map_option
       (\<lambda>q. lit ''Q: '' @ q @ lit ''\<newline>A: '' @ answer h
            @ lit ''\<newline>Weakness: '' @ (if weakness h = [] then lit ''Analyzing...'' else weakness h))
       (to_string env (question h))"

definition history_block :: "js_env \<Rightarrow> history_item list \<Rightarrow> jsstring option" where
  "history_block env hs =
     map_option (join (lit ''\<newline>\<newline>'')) (those (map (exchange_text env) hs))"

definition summarize_request ::
  "config \<Rightarrow> js_env \<Rightarrow> history_item list \<Rightarrow> chat_request option" where
  "summarize_request cfg env hist =
     map_option
       (\<lambda>block.
          \<lparr>model = OPENAI_MODEL cfg,
           messages =
             [\<lparr>role = lit ''user'',
               content =
                 lit ''Summarize the following earlier interview exchanges (questions, answers, weaknesses) ''
                 @ lit ''in two brief sentences, focusing on overall strengths and weaknesses:\<newline>\<newline>''
                 @ block\<rparr>],
           temperature = 1 / 2\<rparr>)
       (history_block env hist)"

text \<open>
  The result is \<open>None\<close> when the function throws: while printing the exchanges (then no
  request is issued), because the call failed, or because the content was \<open>null\<close> and
  \<open>trim\<close> was called on it. The second component lists the requests issued.
\<close>

definition summarizeOld ::
  "config \<Rightarrow> js_env \<Rightarrow> history_item list \<Rightarrow> completion \<Rightarrow> jsstring option \<times> chat_request list" where
  "summarizeOld cfg env hist reply =
     (if hist = [] then (Some [], [])
      else
        (case summarize_request cfg env hist of
           None \<Rightarrow> (None, [])
         | Some request \<Rightarrow>
             (case reply of
                Failed \<Rightarrow> (None, [request])
              | Reply None \<Rightarrow> (None, [request])
              | Reply (Some c) \<Rightarrow> (Some (trim c), [request]))))"

section \<open>The request handlers\<close>

text \<open>
  A handler takes the session, the fields it reads from the request body, every value of
  \<open>Date.now()\<close> it reads (in the order of the reads) and the reply of every collaborator
  call it may make. It returns the response, the session as the handler leaves it (for the
  handlers that assign to it) and the list of requests issued to the collaborator.
\<close>

subsection \<open>POST /api/start\<close>

text \<open>
  \<open>isNaN(duration)\<close> may throw; \<open>duration <= 0\<close> converts the same value once more. The
  profile is assigned (line 160) before \<open>parseInt\<close> is called (line 161).
\<close>

definition start ::
  "js_env \<Rightarrow> session \<Rightarrow> jsval \<Rightarrow> jsval \<Rightarrow> jsval \<Rightarrow> int \<Rightarrow> real \<Rightarrow> response \<times> session" where
  "start env s type' resume' duration now rnd =
     (if \<not> truthy type' \<or> \<not> truthy resume' \<or> \<not> truthy duration
      then (ErrorJson 400 (lit ''Invalid input''), s)
      else
        (case to_number env duration of
           None \<Rightarrow> (Unhandled, s)
         | Some n \<Rightarrow>
             if is_nan n \<or> js_le n (Num 0) then (ErrorJson 400 (lit ''Invalid input''), s)
             else
               (case parseInt10 env duration of
                  None \<Rightarrow> (Unhandled, s\<lparr>profile := Some \<lparr>type = type', resume = resume'\<rparr>\<rparr>)
                | Some minutes \<Rightarrow>
                    (SuccessJson,
                     s\<lparr>profile := Some \<lparr>type = type', resume = resume'\<rparr>,
                       duration_seconds := Some (js_mul env minutes (Num 60)),
                       start_time := Some now,
                       personality := getRandomPersonality rnd,
                       history := Some [],
                       current_question := JNull\<rparr>))))"

subsection \<open>GET /api/next-question\<close>

definition system_content :: "js_env \<Rightarrow> session \<Rightarrow> jsval \<Rightarrow> jsnum \<Rightarrow> jsstring option" where
  \<open>system_content env s typeText timeRemaining =
     map_option
       (\<lambda>typeString.
          lit ''You are a ''
          @ (case personality s of None \<Rightarrow> lit ''undefined'' | Some p \<Rightarrow> p)
          @ lit '' interviewer running a TIMED interview.\<newline>''
          @ lit ''Interview type: '' @ typeString @ lit ''\<newline>''
          @ lit ''Time remaining: '' @ number_to_string env timeRemaining @ lit '' seconds.\<newline>\<newline>''
          @ lit ''You must ask EXACTLY ONE question at a time.\<newline>\<newline>''
          @ lit ''Behavior rules:\<newline>''
          @ lit ''- If the candidate profile/answers are missing critical details needed to interview well (target role/title, level/seniority, location, availability, goals, key experience), ask a concise clarifying question first.\<newline>''
          @ lit ''- If time remaining is short (<= 120 seconds), ask ONLY the single highest-impact missing detail.\<newline>''
          @ lit ''- If the last answer was vague or lacked specifics (see weaknesses), ask a focused follow-up for details.\<newline>''
          @ lit ''- Otherwise, ask a professional, role-relevant interview question based on the candidate's resume and prior answers.\<newline>''
          @ lit ''- Avoid multi-part questions unless absolutely necessary.\<newline>\<newline>''
          @ lit ''Output ONLY a JSON object with a single field: "question". No extra text.'')
       (to_string env typeText)\<close>

definition profile_content :: "js_env \<Rightarrow> jsval \<Rightarrow> bool \<Rightarrow> jsstring option" where
  "profile_content env resumeText profileSparse =
     map_option
       (\<lambda>resumeString.
          lit ''Candidate profile (resume / notes):\<newline>'' @ resumeString @ lit ''\<newline>\<newline>''
          @ lit ''Hint: profile_sparse='' @ (if profileSparse then lit ''true'' else lit ''false''))
       (to_string env resumeText)"

text \<open>
  Lines 184 to 213: the two messages every prompt starts with, or \<open>None\<close> when printing a
  profile field throws. The second word count is not evaluated when the first is below 60.
\<close>

definition base_messages ::
  "js_env \<Rightarrow> session \<Rightarrow> profile_obj \<Rightarrow> int \<Rightarrow> message list option" where
  "base_messages env s p now_left =
     (let timeRemaining = secondsLeft env s now_left;
          resumeText = js_or (resume p) (JStr []);
          typeText = js_or (type p) (JStr [])
      in case wordsCount env resumeText of
           None \<Rightarrow> None
         | Some resumeWords \<Rightarrow>
             (case (if resumeWords < 60 then Some True
                    else map_option (\<lambda>typeWords. typeWords < 2) (wordsCount env typeText)) of
                None \<Rightarrow> None
              | Some profileSparse \<Rightarrow>
                  (case system_content env s typeText timeRemaining of
                     None \<Rightarrow> None
                   | Some systemText \<Rightarrow>
                       (case profile_content env resumeText profileSparse of
                          None \<Rightarrow> None
                        | Some userText \<Rightarrow>
                            Some [\<lparr>role = lit ''system'', content = systemText\<rparr>,
                                  \<lparr>role = lit ''user'', content = userText\<rparr>]))))"

definition summary_message :: "jsstring \<Rightarrow> message" where
  "summary_message oldSummary =
     \<lparr>role = lit ''user'',
      content = lit ''Brief summary of earlier exchanges:\<newline>'' @ oldSummary\<rparr>"

text \<open>\<open>history.slice(-5)\<close> is the whole history when it has fewer than five items.\<close>

definition last_five_message :: "js_env \<Rightarrow> history_item list \<Rightarrow> message option" where
  "last_five_message env h =
     map_option
       (\<lambda>block.
          \<lparr>role = lit ''user'',
           content = lit ''Last five Q&A and weaknesses:\<newline>'' @ block\<rparr>)
       (history_block env (drop (length h - 5) h))"

definition final_message :: message where
  "final_message = \<lparr>role = lit ''user'', content = lit ''Ask the next question now.''\<rparr>"

text \<open>Lines 237 to 255: the completion call and what is done with its reply.\<close>

definition generate_question ::
  "js_env \<Rightarrow> session \<Rightarrow> completion \<Rightarrow> int \<Rightarrow> response \<times> session" where
  "generate_question env s reply now_stamp =
     (case reply of
        Failed \<Rightarrow> (ErrorJson 500 (lit ''Failed to generate question''), s)
      | Reply None \<Rightarrow> (ErrorJson 500 (lit ''Failed to generate question''), s)
      | Reply (Some c) \<Rightarrow>
          (let raw = trim c;
               json = extractJson env raw;
               question = js_or (get_prop json (lit ''question''))
                                (JStr (lit ''Tell me about yourself.''))
           in (QuestionJson question,
               s\<lparr>current_question := question,
                 current_question_started_at := Some now_stamp\<rparr>)))"

text \<open>
  \<open>now\<close>, \<open>now_left\<close> and \<open>now_stamp\<close> are the clock reads of line 176, of \<open>secondsLeft\<close> and
  of line 249. With \<open>history\<close> absent, reading its length throws at line 180 or at line 215,
  and nothing is assigned or sent in between. Building the messages and running the
  summarizer happen outside the \<open>try\<close> block, so an exception there leaves the handler.
\<close>

definition next_question ::
  "config \<Rightarrow> js_env \<Rightarrow> session \<Rightarrow> int \<Rightarrow> int \<Rightarrow> completion \<Rightarrow> completion \<Rightarrow> int
     \<Rightarrow> response \<times> session \<times> chat_request list" where
  "next_question cfg env s now now_left summary_reply question_reply now_stamp =
     (case profile s of
        None \<Rightarrow> (ErrorJson 400 (lit ''Interview not started''), s, [])
      | Some p \<Rightarrow>
          (case history s of
             None \<Rightarrow> (Unhandled, s, [])
           | Some h \<Rightarrow>
               if js_ge (Num (of_int now)) (end_time env s) \<and> length h > 0
                  \<and> \<not> truthy (current_question s)
               then (EndJson, s, [])
               else
                 (case base_messages env s p now_left of
                    None \<Rightarrow> (Unhandled, s, [])
                  | Some base \<Rightarrow>
                      (let (summary, sent) =
                             (if length h > 5
                              then summarizeOld cfg env (take (length h - 5) h) summary_reply
                              else (Some [], []))
                       in case summary of
                            None \<Rightarrow> (Unhandled, s, sent)
                          | Some oldSummary \<Rightarrow>
                              (case (if length h > 0
                                     then map_option
                                            (\<lambda>lastFive.
                                               (if length h > 5 then [summary_message oldSummary]
                                                else [])
                                               @ [lastFive])
                                            (last_five_message env h)
                                     else Some []) of
                                 None \<Rightarrow> (Unhandled, s, sent)
                               | Some context \<Rightarrow>
                                   (let request =
                                          \<lparr>model = OPENAI_MODEL cfg,
                                           messages = base @ context @ [final_message],
                                           temperature = 7 / 10\<rparr>;
                                        (resp, s') =
                                          generate_question env s question_reply now_stamp
                                    in (resp, s', sent @ [request])))))))"

subsection \<open>POST /api/submit-answer\<close>

text \<open>\<open>None\<close>: printing the question throws, inside the \<open>try\<close> block of the analysis.\<close>

definition weakness_request :: "config \<Rightarrow> js_env \<Rightarrow> history_item \<Rightarrow> chat_request option" where
  "weakness_request cfg env item =
     map_option
       (\<lambda>q.
          \<lparr>model = OPENAI_MODEL cfg,
           messages =
             [\<lparr>role = lit ''user'',
               content =
                 lit ''Question: '' @ q @ lit ''\<newline>Answer: '' @ answer item
                 @ lit ''\<newline>\<newline>''
                 @ lit ''In one sentence, what is the key weakness of this answer?''\<rparr>],
           temperature = 6 / 10\<rparr>)
       (to_string env (question item))"

text \<open>
  \<open>ans\<close> is \<open>req.body.answer\<close>; \<open>now_answered\<close> and \<open>now\<close> are the clock reads of lines 274
  and 310. Calling \<open>trim\<close> on a truthy value that is not a string throws, and so does
  \<open>push\<close> on an absent history. The detached analysis issues its completion request
  before its first \<open>await\<close>, that is, inside the handler, unless building the prompt
  throws, which it catches; its continuation is \<open>weakness_analysis_done\<close> below.
\<close>

definition submit_answer ::
  "config \<Rightarrow> js_env \<Rightarrow> session \<Rightarrow> jsval \<Rightarrow> int \<Rightarrow> int \<Rightarrow> response \<times> session \<times> chat_request list" where
  "submit_answer cfg env s ans now_answered now =
     (if profile s = None \<or> \<not> truthy (current_question s)
      then (ErrorJson 400 (lit ''Invalid state''), s, [])
      else if \<not> truthy ans then (ErrorJson 400 (lit ''Answer required''), s, [])
      else
        (case ans of
           JStr a \<Rightarrow>
             if trim a = [] then (ErrorJson 400 (lit ''Answer required''), s, [])
             else
               (let item =
                      \<lparr>question = current_question s,
                       answer = trim a,
                       weakness = lit ''Analyzing...'',
                       askedAt =
                         (case current_question_started_at s of
                            None \<Rightarrow> None
                          | Some t \<Rightarrow> if t = 0 then None else Some t),
                       answeredAt = now_answered,
                       source = lit ''speech_to_text''\<rparr>
                in case history s of
                     None \<Rightarrow> (Unhandled, s, [])
                   | Some h \<Rightarrow>
                       (TimeUpJson (js_ge (Num (of_int now)) (end_time env s)),
                        s\<lparr>history := Some (h @ [item]),
                          current_question := JNull,
                          current_question_started_at := None\<rparr>,
                        (case weakness_request cfg env item of
                           None \<Rightarrow> []
                         | Some request \<Rightarrow> [request])))
         | _ \<Rightarrow> (Unhandled, s, [])))"

text \<open>
  \<open>a === b\<close> for two values read from different objects of the session: primitives are
  compared by value, two arrays or objects are never the same reference.
\<close>

fun strict_eq :: "jsval \<Rightarrow> jsval \<Rightarrow> bool" where
  "strict_eq (JArr xs) b = False"
| "strict_eq (JObj kvs) b = False"
| "strict_eq a b = (a = b)"

fun findIndex :: "('a \<Rightarrow> bool) \<Rightarrow> 'a list \<Rightarrow> nat option" where
  "findIndex P [] = None"
| "findIndex P (x # xs) = (if P x then Some 0 else map_option Suc (findIndex P xs))"

text \<open>
  The continuation of the detached analysis, on the session object of the submitting
  request, whose last history entry is \<open>item\<close> itself: the first earlier entry with the
  same question and answer is updated, and \<open>item\<close> otherwise. A failed call or a \<open>null\<close>
  content is caught and changes nothing.
\<close>

definition weakness_analysis_done :: "session \<Rightarrow> history_item \<Rightarrow> completion \<Rightarrow> session" where
  "weakness_analysis_done s item reply =
     (case reply of
        Failed \<Rightarrow> s
      | Reply None \<Rightarrow> s
      | Reply (Some c) \<Rightarrow>
          (case history s of
             None \<Rightarrow> s
           | Some h \<Rightarrow>
               (let idx =
                      (case findIndex
                              (\<lambda>x. strict_eq (question x) (question item) \<and> answer x = answer item)
                              (butlast h) of
                         Some i \<Rightarrow> i
                       | None \<Rightarrow> length h - 1)
                in if idx < length h
                   then s\<lparr>history := Some (h[idx := (h ! idx)\<lparr>weakness := trim c\<rparr>])\<rparr>
                   else s)))"

subsection \<open>GET /api/transcript\<close>

definition transcript :: "session \<Rightarrow> response" where
  "transcript s =
     (case profile s of
        None \<Rightarrow> ErrorJson 400 (lit ''Interview not started'')
      | Some p \<Rightarrow>
          TranscriptJson p (personality s) (start_time s) (duration_seconds s)
            (case history s of None \<Rightarrow> [] | Some h \<Rightarrow> h))"

subsection \<open>GET /api/result\<close>

definition result_request :: "config \<Rightarrow> js_env \<Rightarrow> history_item list \<Rightarrow> chat_request" where
  \<open>result_request cfg env h =
     (let data =
            JObj [(lit ''q'', JArr (map question h)),
                  (lit ''a'', JArr (map (\<lambda>x. JStr (answer x)) h)),
                  (lit ''w'', JArr (map (\<lambda>x. JStr (if weakness x = [] then lit ''N/A'' else weakness x)) h))]
      in \<lparr>model = OPENAI_MODEL cfg,
          messages =
            [\<lparr>role = lit ''user'',
              content =
                lit ''Based on these Q&A and weaknesses:\<newline>'' @ JSON_stringify env data @ lit ''\<newline>\<newline>''
                @ lit ''Return ONLY a JSON object with:\<newline>''
                @ lit ''  status: "Success" or "Fail",\<newline>''
                @ lit ''  confidence: integer 0'' @ [0x2013] @ lit ''100,\<newline>''
                @ lit ''  reason: string (only if status is "Fail").\<newline>''
                @ lit ''Be as brief as possible.''\<rparr>],
          temperature = 1 / 2\<rparr>)\<close>

text \<open>
  The handler assigns nothing to the session. A \<open>null\<close> content makes \<open>extractJson\<close> throw
  inside the \<open>try\<close> block.
\<close>

definition result :: "config \<Rightarrow> js_env \<Rightarrow> session \<Rightarrow> completion \<Rightarrow> response \<times> chat_request list" where
  "result cfg env s reply =
     (case history s of
        None \<Rightarrow> (ErrorJson 400 (lit ''No interview data''), [])
      | Some h \<Rightarrow>
          if length h = 0 then (ErrorJson 400 (lit ''No interview data''), [])
          else
            (case reply of
               Failed \<Rightarrow> (ErrorJson 500 (lit ''Failed to compute result''), [result_request cfg env h])
             | Reply None \<Rightarrow>
                 (ErrorJson 500 (lit ''Failed to compute result''), [result_request cfg env h])
             | Reply (Some raw) \<Rightarrow>
                 (let r = extractJson env raw
                  in (ResultJson
                        (js_or (get_prop r (lit ''status'')) (JStr (lit ''Fail'')))
                        (nullish (get_prop r (lit ''confidence'')) (JNum 0))
                        (js_or (get_prop r (lit ''reason'')) (JStr []))
                        h,
                      [result_request cfg env h]))))"

subsection \<open>POST /api/tts\<close>

text \<open>
  \<open>text\<close>, \<open>voice\<close>, \<open>speed\<close> and \<open>instructions\<close> are the properties of \<open>req.body\<close>
  (\<open>JUndefined\<close> when absent or when there is no body). The handler assigns nothing to
  the session. Everything happens inside the \<open>try\<close> block: a conversion that throws is
  answered like a failure of the collaborator, before any request is issued.
\<close>

definition tts ::
  "config \<Rightarrow> js_env \<Rightarrow> session \<Rightarrow> jsval \<Rightarrow> jsval \<Rightarrow> jsval \<Rightarrow> jsval \<Rightarrow> speech_reply
     \<Rightarrow> response \<times> speech_request list" where
  "tts cfg env s text voice speed instructions reply =
     (case to_string env (nullish text (JStr [])) of
        None \<Rightarrow> (ErrorJson 500 (lit ''TTS failed''), [])
      | Some textString \<Rightarrow>
          (let textRaw = trim textString
           in if textRaw = [] then (ErrorJson 400 (lit ''text required''), [])
              else
                (let text' = (if length textRaw > 4096 then take 4096 textRaw else textRaw)
                 in case to_string env (js_or voice (JStr (OPENAI_TTS_VOICE cfg))) of
                      None \<Rightarrow> (ErrorJson 500 (lit ''TTS failed''), [])
                    | Some voiceString \<Rightarrow>
                        (case to_number env speed of
                           None \<Rightarrow> (ErrorJson 500 (lit ''TTS failed''), [])
                         | Some speedNumber \<Rightarrow>
                             (case to_string env (js_or instructions (JStr [])) of
                                None \<Rightarrow> (ErrorJson 500 (lit ''TTS failed''), [])
                              | Some given \<Rightarrow>
                                  (let personality' =
                                         (case personality s of
                                            None \<Rightarrow> lit ''professional''
                                          | Some p \<Rightarrow> if p = [] then lit ''professional'' else p);
                                       request =
                                         \<lparr>tts_model = OPENAI_TTS_MODEL cfg,
                                          tts_voice = trim voiceString,
                                          input = text',
                                          tts_instructions =
                                            (if trim given = []
                                             then lit ''Speak like a '' @ personality'
                                                  @ lit '' interviewer. Natural pacing, slight pauses, not robotic.''
                                             else trim given),
                                          tts_speed =
                                            (if is_finite speedNumber then speedNumber
                                             else OPENAI_TTS_SPEED cfg),
                                          response_format = lit ''mp3''\<rparr>
                                   in case reply of
                                        SpeechFailed \<Rightarrow> (ErrorJson 500 (lit ''TTS failed''), [request])
                                      | Audio bytes \<Rightarrow> (AudioMpeg bytes, [request])))))))"

section \<open>Properties of values named by the specification\<close>

text \<open>A value that is a string with at least one code unit.\<close>

definition nonempty_string :: "jsval \<Rightarrow> bool" where
  "nonempty_string v = (case v of JStr t \<Rightarrow> t \<noteq> [] | _ \<Rightarrow> False)"

text \<open>An array or an object: the values whose conversion to a string or a number may throw.\<close>

definition is_object :: "jsval \<Rightarrow> bool" where
  "is_object v = (case v of JArr xs \<Rightarrow> True | JObj kvs \<Rightarrow> True | _ \<Rightarrow> False)"

section \<open>Sample inputs\<close>

text \<open>
  Concrete values at which the theorems below are instantiated. \<open>sample_config\<close> holds the
  defaults of lines 13 to 18. \<open>sample_env\<close> gives \<open>JSON.parse\<close> on the three texts that
  are parsed below; its other components are never evaluated there.
  \<open>sample_session\<close> is a one-minute interview started at time 0; \<open>fresh_session\<close> is
  the session of a client that has not started an interview.
\<close>

definition sample_config :: config where
  "sample_config =
     \<lparr>OPENAI_MODEL = lit ''gpt-4o-mini'', OPENAI_TTS_MODEL = lit ''gpt-4o-mini-tts'',
      OPENAI_TTS_VOICE = lit ''coral'', OPENAI_TTS_SPEED = Num 1\<rparr>"

definition sample_env :: js_env where
  \<open>sample_env =
     \<lparr>JSON_parse =
        (\<lambda>s. if s = lit ''{"question": "Why this role?"}''
               then Some [(lit ''question'', JStr (lit ''Why this role?''))]
             else if s = lit ''{"question": 42}'' then Some [(lit ''question'', JNum 42)]
             else if s = lit ''{"status": "Success"}''
               then Some [(lit ''status'', JStr (lit ''Success''))]
             else None),
      JSON_stringify = (\<lambda>v. []),
      object_to_primitive = (\<lambda>v. None),
      string_to_number = (\<lambda>t. NaN),
      parseInt_string = (\<lambda>t. NaN),
      number_to_string = (\<lambda>n. []),
      fp_mul = (\<lambda>a b. NaN),
      fp_add = (\<lambda>a b. NaN),
      fp_floor_div1000 = (\<lambda>a. NaN)\<rparr>\<close>

definition sample_item :: history_item where
  "sample_item =
     \<lparr>question = JStr (lit ''Why this role?''), answer = lit ''I like it'',
      weakness = lit ''Analyzing...'', askedAt = Some 1000, answeredAt = 2000,
      source = lit ''speech_to_text''\<rparr>"

definition older_item :: history_item where
  "older_item =
     \<lparr>question = JStr (lit ''Tell me about yourself.''), answer = lit ''I am an engineer'',
      weakness = lit ''Too short.'', askedAt = Some 100, answeredAt = 900,
      source = lit ''speech_to_text''\<rparr>"

definition sample_session :: "history_item list \<Rightarrow> jsval \<Rightarrow> session" where
  "sample_session h q =
     \<lparr>profile = Some \<lparr>type = JStr (lit ''Backend Engineer''), resume = JStr (lit ''Five years of Go'')\<rparr>,
      duration_seconds = Some (Num 60),
      start_time = Some 0,
      personality = Some (lit ''friendly but probing''),
      history = Some h,
      current_question = q,
      current_question_started_at = None\<rparr>"

definition fresh_session :: session where
  "fresh_session =
     \<lparr>profile = None, duration_seconds = None, start_time = None, personality = None,
      history = None, current_question = JUndefined, current_question_started_at = None\<rparr>"

section \<open>Basic facts\<close>

lemma of_char_word16_inj: "(of_char c :: 16 word) = of_char d \<longleftrightarrow> c = d"
proof
  assume h: "(of_char c :: 16 word) = of_char d"
  have lt: "(of_char x :: nat) < 2 ^ 16" for x :: char
    by (rule less_trans [OF nat_of_char_less_256]) simp
  have "(word_of_nat (of_char c) :: 16 word) = word_of_nat (of_char d)"
    using h by (simp add: of_nat_of_char)
  then have "take_bit 16 (of_char c :: nat) = take_bit 16 (of_char d :: nat)"
    by (simp add: word_of_nat_eq_iff)
  then have "(of_char c :: nat) = of_char d"
    using lt [of c] lt [of d] by (simp add: take_bit_nat_eq_self)
  then show "c = d" by simp
qed simp

lemma lit_eq_iff: "lit a = lit b \<longleftrightarrow> a = b"
  unfolding lit_def by (simp add: inj_map_eq_map inj_def of_char_word16_inj)

lemma lit_Nil_iff: "lit a = [] \<longleftrightarrow> a = []"
  by (simp add: lit_def)

lemma length_lit: "length (lit a) = length a"
  by (simp add: lit_def)

lemma to_string_primitive: "\<not> is_object v \<Longrightarrow> \<exists>t. to_string env v = Some t"
  by (cases v) (simp_all add: is_object_def)

lemma to_number_primitive: "\<not> is_object v \<Longrightarrow> \<exists>n. to_number env v = Some n"
  by (cases v) (simp_all add: is_object_def)

lemma to_number_parseInt10:
  "to_number env v = Some n \<Longrightarrow> \<exists>k. parseInt10 env v = Some k"
  by (cases v) auto

lemma exact_int_of_int: "\<bar>i\<bar> \<le> 2 ^ 53 \<Longrightarrow> exact_int (real_of_int i)"
proof -
  assume "\<bar>i\<bar> \<le> 2 ^ 53"
  then have "real_of_int \<bar>i\<bar> \<le> real_of_int (2 ^ 53)" by (simp only: of_int_le_iff)
  then show ?thesis by (simp add: exact_int_def)
qed

lemma end_time_numeric:
  "start_time s = Some t0 \<Longrightarrow> duration_seconds s = Some (Num d)
   \<Longrightarrow> exact_int (d * 1000) \<Longrightarrow> exact_int (real_of_int t0 + d * 1000)
   \<Longrightarrow> end_time env s = Num (real_of_int t0 + d * 1000)"
  by (simp add: end_time_def opt_number_def)

lemma secondsLeft_numeric:
  "end_time env s = Num e \<Longrightarrow> exact_int (e - real_of_int now) \<Longrightarrow> \<bar>e - real_of_int now\<bar> \<le> 10 ^ 15
   \<Longrightarrow> secondsLeft env s now = Num (real_of_int (max 0 \<lfloor>(e - real_of_int now) / 1000\<rfloor>))"
  by (simp add: secondsLeft_def js_sub_def max_def)

lemma generate_question_cases:
  "generate_question env s qr ns = (ErrorJson 500 (lit ''Failed to generate question''), s)
   \<or> (\<exists>c. qr = Reply (Some c)
        \<and> generate_question env s qr ns =
            (QuestionJson (js_or (get_prop (extractJson env (trim c)) (lit ''question''))
                                 (JStr (lit ''Tell me about yourself.''))),
             s\<lparr>current_question :=
                  js_or (get_prop (extractJson env (trim c)) (lit ''question''))
                        (JStr (lit ''Tell me about yourself.'')),
               current_question_started_at := Some ns\<rparr>))"
  by (simp add: generate_question_def Let_def split: completion.splits option.splits)

lemma generate_question_reply:
  "generate_question env s (Reply (Some c)) ns =
     (QuestionJson (js_or (get_prop (extractJson env (trim c)) (lit ''question''))
                          (JStr (lit ''Tell me about yourself.''))),
      s\<lparr>current_question :=
           js_or (get_prop (extractJson env (trim c)) (lit ''question''))
                 (JStr (lit ''Tell me about yourself.'')),
        current_question_started_at := Some ns\<rparr>)"
  by (simp add: generate_question_def Let_def)


lemma generate_question_not_unhandled:
  "fst (generate_question env s qr ns) \<noteq> Unhandled"
  "fst (generate_question env s qr ns) \<noteq> EndJson"
  using generate_question_cases [of env s qr ns] by auto

lemma js_or_default_truthy: "truthy d \<Longrightarrow> truthy (js_or v d)"
  by (simp add: js_or_def)

lemma generate_question_state_cases:
  "snd (generate_question env s qr ns) = s
   \<or> (\<exists>q. fst (generate_question env s qr ns) = QuestionJson q \<and> truthy q
          \<and> snd (generate_question env s qr ns)
              = s\<lparr>current_question := q, current_question_started_at := Some ns\<rparr>)"
proof -
  have d: "truthy (js_or v (JStr (lit ''Tell me about yourself.'')))" for v
    by (rule js_or_default_truthy) (simp add: lit_Nil_iff)
  show ?thesis
    using generate_question_cases [of env s qr ns] d by auto
qed

text \<open>The requests that next-question issues and the messages of its prompt.\<close>

lemma next_question_not_started:
  "profile s = None \<Longrightarrow>
   next_question cfg env s now nl sr qr ns = (ErrorJson 400 (lit ''Interview not started''), s, [])"
  by (simp add: next_question_def)

lemma next_question_no_history:
  "profile s = Some p \<Longrightarrow> history s = None \<Longrightarrow>
   next_question cfg env s now nl sr qr ns = (Unhandled, s, [])"
  by (simp add: next_question_def)

lemma next_question_end:
  "profile s = Some p \<Longrightarrow> history s = Some h \<Longrightarrow>
   js_ge (Num (of_int now)) (end_time env s) \<Longrightarrow> h \<noteq> [] \<Longrightarrow> \<not> truthy (current_question s) \<Longrightarrow>
   next_question cfg env s now nl sr qr ns = (EndJson, s, [])"
  by (simp add: next_question_def)

lemma next_question_base_failed:
  "profile s = Some p \<Longrightarrow> history s = Some h \<Longrightarrow>
   \<not> (js_ge (Num (of_int now)) (end_time env s) \<and> h \<noteq> [] \<and> \<not> truthy (current_question s)) \<Longrightarrow>
   base_messages env s p nl = None \<Longrightarrow>
   next_question cfg env s now nl sr qr ns = (Unhandled, s, [])"
  by (auto simp add: next_question_def)

lemma next_question_empty:
  "profile s = Some p \<Longrightarrow> history s = Some [] \<Longrightarrow>
   base_messages env s p nl = Some base \<Longrightarrow>
   next_question cfg env s now nl sr qr ns =
     (fst (generate_question env s qr ns), snd (generate_question env s qr ns),
      [\<lparr>model = OPENAI_MODEL cfg, messages = base @ [final_message], temperature = 7 / 10\<rparr>])"
  by (simp add: next_question_def Let_def split: prod.splits)

lemma next_question_short:
  "profile s = Some p \<Longrightarrow> history s = Some h \<Longrightarrow>
   \<not> (js_ge (Num (of_int now)) (end_time env s) \<and> h \<noteq> [] \<and> \<not> truthy (current_question s)) \<Longrightarrow>
   h \<noteq> [] \<Longrightarrow> length h \<le> 5 \<Longrightarrow>
   base_messages env s p nl = Some base \<Longrightarrow>
   next_question cfg env s now nl sr qr ns =
     (case last_five_message env h of
        None \<Rightarrow> (Unhandled, s, [])
      | Some m \<Rightarrow>
          (fst (generate_question env s qr ns), snd (generate_question env s qr ns),
           [\<lparr>model = OPENAI_MODEL cfg, messages = base @ [m, final_message],
             temperature = 7 / 10\<rparr>]))"
  by (auto simp add: next_question_def Let_def split: prod.splits option.splits)

lemma next_question_long:
  "profile s = Some p \<Longrightarrow> history s = Some h \<Longrightarrow>
   \<not> (js_ge (Num (of_int now)) (end_time env s) \<and> h \<noteq> [] \<and> \<not> truthy (current_question s)) \<Longrightarrow>
   5 < length h \<Longrightarrow>
   base_messages env s p nl = Some base \<Longrightarrow>
   next_question cfg env s now nl sr qr ns =
     (case summarize_request cfg env (take (length h - 5) h) of
        None \<Rightarrow> (Unhandled, s, [])
      | Some sreq \<Rightarrow>
          (case sr of
             Failed \<Rightarrow> (Unhandled, s, [sreq])
           | Reply None \<Rightarrow> (Unhandled, s, [sreq])
           | Reply (Some c) \<Rightarrow>
               (case last_five_message env h of
                  None \<Rightarrow> (Unhandled, s, [sreq])
                | Some m \<Rightarrow>
                    (fst (generate_question env s qr ns), snd (generate_question env s qr ns),
                     [sreq,
                      \<lparr>model = OPENAI_MODEL cfg,
                       messages = base @ [summary_message (trim c), m, final_message],
                       temperature = 7 / 10\<rparr>]))))"
  by (auto simp add: next_question_def summarizeOld_def Let_def
      split: prod.splits option.splits completion.splits)

lemma next_question_generation:
  assumes p: "profile s = Some p" and h: "history s = Some h"
    and n: "\<not> (js_ge (Num (of_int now)) (end_time env s) \<and> h \<noteq> [] \<and> \<not> truthy (current_question s))"
  shows "(fst (next_question cfg env s now nl sr qr ns) = Unhandled
          \<and> fst (snd (next_question cfg env s now nl sr qr ns)) = s)
       \<or> (\<exists>base extra.
             base_messages env s p nl = Some base
             \<and> (h = [] \<longrightarrow> extra = [])
             \<and> (h \<noteq> [] \<and> length h \<le> 5 \<longrightarrow> (\<exists>m. last_five_message env h = Some m \<and> extra = [m]))
             \<and> (5 < length h \<longrightarrow>
                   (\<exists>c m. sr = Reply (Some c) \<and> last_five_message env h = Some m
                          \<and> extra = [summary_message (trim c), m]))
             \<and> next_question cfg env s now nl sr qr ns =
                 (fst (generate_question env s qr ns), snd (generate_question env s qr ns),
                  (if 5 < length h
                   then (case summarize_request cfg env (take (length h - 5) h) of
                           None \<Rightarrow> [] | Some sreq \<Rightarrow> [sreq])
                   else [])
                  @ [\<lparr>model = OPENAI_MODEL cfg,
                       messages = base @ extra @ [final_message],
                       temperature = 7 / 10\<rparr>]))"
proof (cases "base_messages env s p nl")
  case None
  then show ?thesis using p h n by (simp add: next_question_base_failed)
next
  case (Some base)
  note b = this
  consider (empty) "h = []" | (short) "h \<noteq> []" "length h \<le> 5" | (long) "5 < length h"
    by (cases "h = []"; cases "length h \<le> 5"; simp)
  then show ?thesis
  proof cases
    case empty
    then show ?thesis using p h b by (simp add: next_question_empty)
  next
    case short
    show ?thesis
    proof (cases "last_five_message env h")
      case None
      then show ?thesis using short by (simp add: next_question_short [OF p h n _ _ b])
    next
      case (Some m)
      then show ?thesis using short b by (simp add: next_question_short [OF p h n _ _ b])
    qed
  next
    case long
    note nl = next_question_long [OF p h n long b, of cfg sr qr ns]
    show ?thesis
    proof (cases "summarize_request cfg env (take (length h - 5) h)")
      case None
      then show ?thesis using nl by simp
    next
      case (Some sreq)
      note sq = this
      show ?thesis
      proof (cases sr)
        case Failed
        then show ?thesis using nl sq by simp
      next
        case (Reply r)
        show ?thesis
        proof (cases r)
          case None
          then show ?thesis using nl sq Reply by simp
        next
          case (Some c)
          note c = this
          show ?thesis
          proof (cases "last_five_message env h")
            case None
            then show ?thesis using nl sq Reply c by simp
          next
            case (Some m)
            then show ?thesis using nl sq Reply c long b by auto
          qed
        qed
      qed
    qed
  qed
qed

lemma next_question_state_cases:
  "fst (snd (next_question cfg env s now nl sr qr ns)) = s
   \<or> (\<exists>q. fst (next_question cfg env s now nl sr qr ns) = QuestionJson q \<and> truthy q
          \<and> fst (snd (next_question cfg env s now nl sr qr ns))
              = s\<lparr>current_question := q, current_question_started_at := Some ns\<rparr>)"
proof (cases "profile s")
  case None
  then show ?thesis by (simp add: next_question_not_started)
next
  case (Some p)
  note p = this
  show ?thesis
  proof (cases "history s")
    case None
    with p show ?thesis by (simp add: next_question_no_history)
  next
    case (Some h)
    note h = this
    show ?thesis
    proof (cases "js_ge (Num (of_int now)) (end_time env s) \<and> h \<noteq> [] \<and> \<not> truthy (current_question s)")
      case True
      with p h show ?thesis by (simp add: next_question_end)
    next
      case False
      from next_question_generation [OF p h False, of cfg nl sr qr ns]
      show ?thesis
      proof
        assume "fst (next_question cfg env s now nl sr qr ns) = Unhandled
                \<and> fst (snd (next_question cfg env s now nl sr qr ns)) = s"
        then show ?thesis by simp
      next
        assume "\<exists>base extra.
             base_messages env s p nl = Some base
             \<and> (h = [] \<longrightarrow> extra = [])
             \<and> (h \<noteq> [] \<and> length h \<le> 5 \<longrightarrow> (\<exists>m. last_five_message env h = Some m \<and> extra = [m]))
             \<and> (5 < length h \<longrightarrow>
                   (\<exists>c m. sr = Reply (Some c) \<and> last_five_message env h = Some m
                          \<and> extra = [summary_message (trim c), m]))
             \<and> next_question cfg env s now nl sr qr ns =
                 (fst (generate_question env s qr ns), snd (generate_question env s qr ns),
                  (if 5 < length h
                   then (case summarize_request cfg env (take (length h - 5) h) of
                           None \<Rightarrow> [] | Some sreq \<Rightarrow> [sreq])
                   else [])
                  @ [\<lparr>model = OPENAI_MODEL cfg,
                       messages = base @ extra @ [final_message],
                       temperature = 7 / 10\<rparr>])"
        then have "fst (next_question cfg env s now nl sr qr ns) = fst (generate_question env s qr ns)"
          and "fst (snd (next_question cfg env s now nl sr qr ns)) = snd (generate_question env s qr ns)"
          by auto
        then show ?thesis
          using generate_question_state_cases [of env s qr ns] by simp
      qed
    qed
  qed
qed

lemma next_question_history:
  "history (fst (snd (next_question cfg env s now nl sr qr ns))) = history s"
  using next_question_state_cases [of cfg env s now nl sr qr ns] by auto

lemma start_state_cases:
  "snd (start env s ty re du now rnd) = s
   \<or> current_question (snd (start env s ty re du now rnd)) = JNull"
proof (cases "to_number env du")
  case None
  then show ?thesis by (simp add: start_def)
next
  case (Some n)
  then obtain k where "parseInt10 env du = Some k"
    using to_number_parseInt10 by blast
  with Some show ?thesis by (simp add: start_def)
qed

lemma submit_answer_rejected_state:
  "profile s = None \<or> \<not> truthy (current_question s) \<Longrightarrow>
   submit_answer cfg env s ans na now = (ErrorJson 400 (lit ''Invalid state''), s, [])"
  by (auto simp add: submit_answer_def)

lemma submit_answer_rejected_answer:
  "profile s \<noteq> None \<Longrightarrow> truthy (current_question s) \<Longrightarrow>
   \<not> truthy ans \<or> (\<exists>a. ans = JStr a \<and> trim a = []) \<Longrightarrow>
   submit_answer cfg env s ans na now = (ErrorJson 400 (lit ''Answer required''), s, [])"
  by (auto simp add: submit_answer_def)

lemma submit_answer_accepted:
  "profile s \<noteq> None \<Longrightarrow> truthy (current_question s) \<Longrightarrow> trim a \<noteq> [] \<Longrightarrow>
   history s = Some h \<Longrightarrow>
   submit_answer cfg env s (JStr a) na now =
     (TimeUpJson (js_ge (Num (of_int now)) (end_time env s)),
      s\<lparr>history :=
           Some (h @ [\<lparr>question = current_question s, answer = trim a,
                       weakness = lit ''Analyzing...'',
                       askedAt = (case current_question_started_at s of
                                    None \<Rightarrow> None
                                  | Some t \<Rightarrow> if t = 0 then None else Some t),
                       answeredAt = na, source = lit ''speech_to_text''\<rparr>]),
        current_question := JNull,
        current_question_started_at := None\<rparr>,
      (case weakness_request cfg env
              \<lparr>question = current_question s, answer = trim a,
               weakness = lit ''Analyzing...'',
               askedAt = (case current_question_started_at s of
                            None \<Rightarrow> None
                          | Some t \<Rightarrow> if t = 0 then None else Some t),
               answeredAt = na, source = lit ''speech_to_text''\<rparr> of
         None \<Rightarrow> []
       | Some request \<Rightarrow> [request]))"
  by (auto simp add: submit_answer_def Let_def trim_def)

lemma submit_answer_cases:
  "(\<exists>m. submit_answer cfg env s ans na now = (ErrorJson 400 m, s, []))
   \<or> submit_answer cfg env s ans na now = (Unhandled, s, [])
   \<or> (\<exists>a h. ans = JStr a \<and> trim a \<noteq> [] \<and> profile s \<noteq> None \<and> truthy (current_question s)
        \<and> history s = Some h)"
  by (cases ans; cases "history s") (auto simp add: submit_answer_def Let_def)

lemma weakness_analysis_done_length:
  "map_option length (history (weakness_analysis_done s item reply)) = map_option length (history s)"
  by (simp add: weakness_analysis_done_def Let_def split: completion.splits option.splits)

lemma weakness_analysis_done_question:
  "current_question (weakness_analysis_done s item reply) = current_question s"
  by (simp add: weakness_analysis_done_def Let_def split: completion.splits option.splits)

lemma submit_answer_not_rejected:
  assumes "profile s \<noteq> None" and "truthy (current_question s)" and "truthy ans"
    and "\<not> (\<exists>a. ans = JStr a \<and> trim a = [])"
  shows "fst (submit_answer cfg env s ans na now) \<noteq> ErrorJson n m"
proof (cases ans)
  case (JStr a)
  with assms(4) have t: "trim a \<noteq> []" by simp
  show ?thesis
  proof (cases "history s")
    case None
    with assms JStr t show ?thesis by (auto simp add: submit_answer_def Let_def)
  next
    case (Some h)
    with assms JStr t show ?thesis by (simp add: submit_answer_accepted)
  qed
qed (use assms in \<open>auto simp add: submit_answer_def\<close>)

lemma submit_answer_state_cases:
  "fst (snd (submit_answer cfg env s ans na now)) = s
   \<or> (\<exists>b. fst (submit_answer cfg env s ans na now) = TimeUpJson b)"
  using submit_answer_cases [of cfg env s ans na now]
  by (auto simp add: submit_answer_accepted)


lemma result_no_data:
  "history s = None \<or> history s = Some [] \<Longrightarrow>
   result cfg env s reply = (ErrorJson 400 (lit ''No interview data''), [])"
  by (auto simp add: result_def)

lemma result_reply:
  "history s = Some h \<Longrightarrow> h \<noteq> [] \<Longrightarrow>
   result cfg env s (Reply (Some raw)) =
     (ResultJson
        (js_or (get_prop (extractJson env raw) (lit ''status'')) (JStr (lit ''Fail'')))
        (nullish (get_prop (extractJson env raw) (lit ''confidence'')) (JNum 0))
        (js_or (get_prop (extractJson env raw) (lit ''reason'')) (JStr []))
        h,
      [result_request cfg env h])"
  by (simp add: result_def Let_def)

lemma is_object_js_or: "\<not> is_object v \<Longrightarrow> \<not> is_object (js_or v (JStr t))"
  by (simp add: js_or_def is_object_def)

lemma wordsCount_primitive: "\<not> is_object v \<Longrightarrow> \<exists>n. wordsCount env v = Some n"
  using to_string_primitive [OF is_object_js_or, of v env "[]"]
  by (auto simp add: wordsCount_def)

lemma base_messages_primitive:
  assumes "\<not> is_object (type p)" and "\<not> is_object (resume p)"
  shows "\<exists>base. base_messages env s p nl = Some base"
proof -
  let ?r = "js_or (resume p) (JStr [])" and ?t = "js_or (type p) (JStr [])"
  have r: "\<not> is_object ?r" and t: "\<not> is_object ?t"
    using assms by (simp_all add: is_object_js_or)
  obtain rw where rw: "wordsCount env ?r = Some rw"
    using wordsCount_primitive [OF r] by blast
  obtain tw where tw: "wordsCount env ?t = Some tw"
    using wordsCount_primitive [OF t] by blast
  obtain rs where rs: "to_string env ?r = Some rs"
    using to_string_primitive [OF r] by blast
  obtain ts where ts: "to_string env ?t = Some ts"
    using to_string_primitive [OF t] by blast
  show ?thesis
    by (simp add: base_messages_def Let_def rw tw system_content_def profile_content_def rs ts)
qed

lemma base_messages_shape:
  "base_messages env s p nl = Some base \<Longrightarrow>
   \<exists>systemText userText.
     base = [\<lparr>role = lit ''system'', content = systemText\<rparr>,
             \<lparr>role = lit ''user'', content = userText\<rparr>]"
  by (auto simp add: base_messages_def Let_def split: option.splits if_splits)

lemma those_map_Some:
  "(\<And>x. x \<in> set xs \<Longrightarrow> \<exists>y. f x = Some y) \<Longrightarrow> \<exists>ys. those (map f xs) = Some ys"
proof (induction xs)
  case Nil
  then show ?case by simp
next
  case (Cons a xs)
  then obtain y where "f a = Some y" by auto
  moreover obtain ys where "those (map f xs) = Some ys" using Cons by auto
  ultimately show ?case by simp
qed

lemma history_block_primitive:
  assumes "\<And>x. x \<in> set hs \<Longrightarrow> \<not> is_object (question x)"
  shows "\<exists>block. history_block env hs = Some block"
proof -
  have "\<exists>y. exchange_text env x = Some y" if "x \<in> set hs" for x
    using to_string_primitive [OF assms [OF that], of env] by (auto simp add: exchange_text_def)
  then obtain ys where "those (map (exchange_text env) hs) = Some ys"
    using those_map_Some [of hs "exchange_text env"] by blast
  then show ?thesis by (simp add: history_block_def)
qed

lemma join_contains: "t \<in> set ts \<Longrightarrow> \<exists>before after. join sep ts = before @ t @ after"
proof (induction sep ts rule: join.induct)
  case (1 sep)
  then show ?case by simp
next
  case (2 sep x)
  then have "join sep [x] = [] @ t @ []" by simp
  then show ?case by blast
next
  case (3 sep x y ys)
  show ?case
  proof (cases "t = x")
    case True
    then have "join sep (x # y # ys) = [] @ t @ (sep @ join sep (y # ys))" by simp
    then show ?thesis by blast
  next
    case False
    with 3 obtain b a where "join sep (y # ys) = b @ t @ a" by auto
    then have "join sep (x # y # ys) = (x @ sep @ b) @ t @ a" by simp
    then show ?thesis by blast
  qed
qed

lemma end_time_history: "end_time env (s\<lparr>history := x\<rparr>) = end_time env s"
  by (simp add: end_time_def)

lemma secondsLeft_history: "secondsLeft env (s\<lparr>history := x\<rparr>) nl = secondsLeft env s nl"
  by (simp add: secondsLeft_def end_time_history)

lemma system_content_history:
  "system_content env (s\<lparr>history := x\<rparr>) ty tr = system_content env s ty tr"
  by (simp add: system_content_def)

lemma base_messages_history:
  "base_messages env (s\<lparr>history := x\<rparr>) p nl = base_messages env s p nl"
  by (simp only: base_messages_def secondsLeft_history system_content_history)

lemma secondsLeft_bounded:
  assumes t: "start_time s = Some t0" and d: "duration_seconds s = Some (Num (real_of_int d))"
    and bt: "\<bar>t0\<bar> \<le> 10 ^ 14" and bd: "\<bar>d * 1000\<bar> \<le> 10 ^ 14" and bn: "\<bar>now\<bar> \<le> 10 ^ 14"
  shows "secondsLeft env s now = Num (real_of_int (max 0 ((t0 + d * 1000 - now) div 1000)))"
proof -
  have 1: "exact_int (real_of_int d * 1000)"
    using exact_int_of_int [of "d * 1000"] bd by simp
  have 2: "exact_int (real_of_int t0 + real_of_int d * 1000)"
    using exact_int_of_int [of "t0 + d * 1000"] bt bd by simp
  have e: "end_time env s = Num (real_of_int t0 + real_of_int d * 1000)"
    using t d 1 2 by (simp add: end_time_numeric)
  have 3: "exact_int (real_of_int t0 + real_of_int d * 1000 - real_of_int now)"
    using exact_int_of_int [of "t0 + d * 1000 - now"] bt bd bn by simp
  have "\<bar>t0 + d * 1000 - now\<bar> \<le> 10 ^ 15" using bt bd bn by simp
  then have "real_of_int \<bar>t0 + d * 1000 - now\<bar> \<le> real_of_int (10 ^ 15)"
    by (simp only: of_int_le_iff)
  then have 4: "\<bar>real_of_int t0 + real_of_int d * 1000 - real_of_int now\<bar> \<le> 10 ^ 15"
    by simp
  have f: "\<lfloor>(real_of_int t0 + real_of_int d * 1000 - real_of_int now) / 1000\<rfloor>
             = (t0 + d * 1000 - now) div 1000"
    using floor_divide_of_int_eq [of "t0 + d * 1000 - now" 1000, where ?'a = real] by simp
  show ?thesis
    using secondsLeft_numeric [OF e 3 4] by (simp only: f)
qed





lemma history_block_unfold:
  "history_block env hs = Some block \<Longrightarrow>
   \<exists>texts.
     those (map (\<lambda>x. map_option
                        (\<lambda>q. lit ''Q: '' @ q @ lit ''\<newline>A: '' @ answer x @ lit ''\<newline>Weakness: ''
                             @ (if weakness x = [] then lit ''Analyzing...'' else weakness x))
                        (to_string env (question x))) hs) = Some texts
     \<and> block = join (lit ''\<newline>\<newline>'') texts"
proof -
  assume a: "history_block env hs = Some block"
  have e: "exchange_text env = (\<lambda>x. map_option
                        (\<lambda>q. lit ''Q: '' @ q @ lit ''\<newline>A: '' @ answer x @ lit ''\<newline>Weakness: ''
                             @ (if weakness x = [] then lit ''Analyzing...'' else weakness x))
                        (to_string env (question x)))"
    by (rule ext) (simp add: exchange_text_def)
  from a show ?thesis
    unfolding history_block_def e by auto
qed

lemma those_map_nth:
  "those (map f xs) = Some ys \<Longrightarrow> length ys = length xs \<and> (\<forall>i < length xs. f (xs ! i) = Some (ys ! i))"
proof (induction xs arbitrary: ys)
  case Nil
  then show ?case by simp
next
  case (Cons a xs)
  then obtain y zs where y: "f a = Some y" and zs: "those (map f xs) = Some zs" and ys: "ys = y # zs"
    by (auto split: option.splits)
  from Cons.IH [OF zs] have l: "length zs = length xs"
    and n: "\<forall>i < length xs. f (xs ! i) = Some (zs ! i)" by simp_all
  show ?case
  proof (intro conjI allI impI)
    show "length ys = length (a # xs)" using l ys by simp
    fix i assume "i < length (a # xs)"
    then show "f ((a # xs) ! i) = Some (ys ! i)"
      using y n ys by (cases i) simp_all
  qed
qed


lemma next_question_long_sent:
  assumes p: "profile s = Some p" and h: "history s = Some h" and l: "5 < length h"
    and n: "\<not> (js_ge (Num (of_int now)) (end_time env s) \<and> \<not> truthy (current_question s))"
    and c: "sr = Reply (Some c)"
    and u: "fst (next_question cfg env s now nl sr qr ns) \<noteq> Unhandled"
  shows "\<exists>base sreq m.
           base_messages env s p nl = Some base
           \<and> summarize_request cfg env (take (length h - 5) h) = Some sreq
           \<and> last_five_message env h = Some m
           \<and> snd (snd (next_question cfg env s now nl sr qr ns)) =
               [sreq,
                \<lparr>model = OPENAI_MODEL cfg,
                 messages = base @ [summary_message (trim c), m, final_message],
                 temperature = 7 / 10\<rparr>]"
proof -
  have n': "\<not> (js_ge (Num (of_int now)) (end_time env s) \<and> h \<noteq> [] \<and> \<not> truthy (current_question s))"
    using n by blast
  obtain base where b: "base_messages env s p nl = Some base"
    using u next_question_base_failed [OF p h n', of nl cfg sr qr ns]
    by (cases "base_messages env s p nl") auto
  note long = next_question_long [OF p h n' l b, of cfg sr qr ns]
  obtain sreq where sq: "summarize_request cfg env (take (length h - 5) h) = Some sreq"
    using u long by (cases "summarize_request cfg env (take (length h - 5) h)") auto
  obtain m where m: "last_five_message env h = Some m"
    using u long sq c by (cases "last_five_message env h") auto
  show ?thesis
    using long b sq m c by simp
qed

lemma next_question_handled:
  assumes p: "profile s = Some p" and h: "history s = Some h"
    and n: "\<not> (js_ge (Num (of_int now)) (end_time env s) \<and> h \<noteq> [] \<and> \<not> truthy (current_question s))"
    and t: "\<not> is_object (type p)" and r: "\<not> is_object (resume p)"
    and qs: "\<forall>x \<in> set h. \<not> is_object (question x)"
    and l: "length h \<le> 5 \<or> (\<exists>c. sr = Reply (Some c))"
  shows "fst (next_question cfg env s now nl sr qr ns) \<noteq> Unhandled"
proof -
  obtain base where b: "base_messages env s p nl = Some base"
    using t r base_messages_primitive by blast
  have q: "\<not> is_object (question x)" if "x \<in> set (drop (length h - 5) h)" for x
    using qs that in_set_dropD by fast
  obtain blk where "history_block env (drop (length h - 5) h) = Some blk"
    using history_block_primitive [of "drop (length h - 5) h" env] q by blast
  then obtain m where m: "last_five_message env h = Some m"
    by (simp add: last_five_message_def)
  have g: "fst (generate_question env s qr ns) \<noteq> Unhandled"
    by (rule generate_question_not_unhandled)
  consider (empty) "h = []" | (short) "h \<noteq> []" "length h \<le> 5" | (long) "5 < length h"
    by (cases "h = []"; cases "length h \<le> 5"; simp)
  then show ?thesis
  proof cases
    case empty
    then show ?thesis using p h b g by (simp add: next_question_empty)
  next
    case short
    then show ?thesis using g m by (simp add: next_question_short [OF p h n _ _ b])
  next
    case long
    with l obtain c where c: "sr = Reply (Some c)" by auto
    have q': "\<not> is_object (question x)" if "x \<in> set (take (length h - 5) h)" for x
      using qs that in_set_takeD by fast
    obtain blk' where "history_block env (take (length h - 5) h) = Some blk'"
      using history_block_primitive [of "take (length h - 5) h" env] q' by blast
    then obtain sreq where "summarize_request cfg env (take (length h - 5) h) = Some sreq"
      by (simp add: summarize_request_def)
    then show ?thesis
      using g m c by (simp add: next_question_long [OF p h n long b])
  qed
qed

lemma tts_sent:
  assumes "to_string env (nullish text (JStr [])) = Some t" and "trim t \<noteq> []"
  shows "tts cfg env s text voice speed instructions reply = (ErrorJson 500 (lit ''TTS failed''), [])
       \<or> (\<exists>r. input r = take 4096 (trim t)
              \<and> tts cfg env s text voice speed instructions reply =
                  (case reply of
                     SpeechFailed \<Rightarrow> ErrorJson 500 (lit ''TTS failed'')
                   | Audio bytes \<Rightarrow> AudioMpeg bytes,
                   [r]))"
proof (cases "to_string env (js_or voice (JStr (OPENAI_TTS_VOICE cfg)))")
  case None
  then show ?thesis using assms by (simp add: tts_def Let_def)
next
  case v: (Some voiceString)
  show ?thesis
  proof (cases "to_number env speed")
    case None
    then show ?thesis using assms v by (simp add: tts_def Let_def)
  next
    case n: (Some speedNumber)
    show ?thesis
    proof (cases "to_string env (js_or instructions (JStr []))")
      case None
      then show ?thesis using assms v n by (simp add: tts_def Let_def)
    next
      case (Some given)
      then show ?thesis using assms v n
        by (cases reply) (simp_all add: tts_def Let_def)
    qed
  qed
qed

lemma tts_handled:
  assumes "to_string env (nullish text (JStr [])) = Some t" and "trim t \<noteq> []"
    and "\<not> is_object voice" and "\<not> is_object speed" and "\<not> is_object instructions"
  shows "\<exists>r. input r = take 4096 (trim t)
              \<and> tts cfg env s text voice speed instructions reply =
                  (case reply of
                     SpeechFailed \<Rightarrow> ErrorJson 500 (lit ''TTS failed'')
                   | Audio bytes \<Rightarrow> AudioMpeg bytes,
                   [r])"
proof -
  obtain voiceString where v: "to_string env (js_or voice (JStr (OPENAI_TTS_VOICE cfg))) = Some voiceString"
    using to_string_primitive [OF is_object_js_or, OF assms(3)] by blast
  obtain speedNumber where n: "to_number env speed = Some speedNumber"
    using to_number_primitive [OF assms(4)] by blast
  obtain given where g: "to_string env (js_or instructions (JStr [])) = Some given"
    using to_string_primitive [OF is_object_js_or, OF assms(5)] by blast
  show ?thesis using assms(1,2) v n g
    by (cases reply) (simp_all add: tts_def Let_def)
qed

section \<open>The end signal of next-question\<close>




section \<open>The pending question\<close>

text \<open>
  Claim C2. A successful answer submission sets \<open>current_question\<close> to null, and a further
  submission on the session it leaves, whatever its answer, is answered with status 400
  and \<open>Invalid state\<close> and changes nothing; more generally a submission without a pending
  question is rejected so. \<open>current_question\<close> is non-null only between a successful
  next-question and the submission that answers it: an answer submission and a start
  request leave the session as it was or leave \<open>current_question\<close> null, next-question
  leaves the session as it was unless it returns a question, which is truthy and becomes
  \<open>current_question\<close>, and the detached weakness analysis does not touch it.
\<close>

theorem current_question_lifecycle:
  "(\<forall>b. fst (submit_answer cfg env s ans na now) = TimeUpJson b
      \<longrightarrow> current_question (fst (snd (submit_answer cfg env s ans na now))) = JNull
          \<and> submit_answer cfg env (fst (snd (submit_answer cfg env s ans na now))) ans2 na2 now2
              = (ErrorJson 400 (lit ''Invalid state''),
                 fst (snd (submit_answer cfg env s ans na now)), []))
   \<and> (\<not> truthy (current_question s)
      \<longrightarrow> submit_answer cfg env s ans na now = (ErrorJson 400 (lit ''Invalid state''), s, []))
   \<and> (fst (snd (submit_answer cfg env s ans na now)) = s
       \<or> current_question (fst (snd (submit_answer cfg env s ans na now))) = JNull)
   \<and> (snd (start env s ty re du now rnd) = s
       \<or> current_question (snd (start env s ty re du now rnd)) = JNull)
   \<and> (fst (snd (next_question cfg env s now nl sr qr ns)) = s
       \<or> (\<exists>q. fst (next_question cfg env s now nl sr qr ns) = QuestionJson q \<and> truthy q
              \<and> current_question (fst (snd (next_question cfg env s now nl sr qr ns))) = q))
   \<and> current_question (weakness_analysis_done s it reply) = current_question s"
proof (intro conjI allI impI)
  fix b
  assume t: "fst (submit_answer cfg env s ans na now) = TimeUpJson b"
  then obtain a h where a: "ans = JStr a" "trim a \<noteq> []" "profile s \<noteq> None"
      "truthy (current_question s)" "history s = Some h"
    using submit_answer_cases [of cfg env s ans na now] by auto
  then show q: "current_question (fst (snd (submit_answer cfg env s ans na now))) = JNull"
    by (simp add: submit_answer_accepted)
  then show "submit_answer cfg env (fst (snd (submit_answer cfg env s ans na now))) ans2 na2 now2
              = (ErrorJson 400 (lit ''Invalid state''),
                 fst (snd (submit_answer cfg env s ans na now)), [])"
    by (simp add: submit_answer_rejected_state)
next
  assume "\<not> truthy (current_question s)"
  then show "submit_answer cfg env s ans na now = (ErrorJson 400 (lit ''Invalid state''), s, [])"
    by (simp add: submit_answer_rejected_state)
next
  show "fst (snd (submit_answer cfg env s ans na now)) = s
       \<or> current_question (fst (snd (submit_answer cfg env s ans na now))) = JNull"
  proof (cases "\<exists>b. fst (submit_answer cfg env s ans na now) = TimeUpJson b")
    case True
    then obtain a h where "ans = JStr a" "trim a \<noteq> []" "profile s \<noteq> None"
        "truthy (current_question s)" "history s = Some h"
      using submit_answer_cases [of cfg env s ans na now] by auto
    then show ?thesis by (simp add: submit_answer_accepted)
  next
    case False
    then show ?thesis using submit_answer_state_cases [of cfg env s ans na now] by blast
  qed
next
  show "snd (start env s ty re du now rnd) = s
       \<or> current_question (snd (start env s ty re du now rnd)) = JNull"
    by (rule start_state_cases)
next
  show "fst (snd (next_question cfg env s now nl sr qr ns)) = s
       \<or> (\<exists>q. fst (next_question cfg env s now nl sr qr ns) = QuestionJson q \<and> truthy q
              \<and> current_question (fst (snd (next_question cfg env s now nl sr qr ns))) = q)"
    using next_question_state_cases [of cfg env s now nl sr qr ns] by auto
next
  show "current_question (weakness_analysis_done s it reply) = current_question s"
    by (rule weakness_analysis_done_question)
qed

theorem current_question_lifecycle_witness:
  "fst (submit_answer sample_config sample_env
          (sample_session [] (JStr (lit ''Why this role?''))) (JStr (lit '' I like it '')) 2000 2001)
     = TimeUpJson False
   \<and> current_question (fst (snd (submit_answer sample_config sample_env
          (sample_session [] (JStr (lit ''Why this role?''))) (JStr (lit '' I like it '')) 2000 2001)))
     = JNull
   \<and> fst (submit_answer sample_config sample_env
        (fst (snd (submit_answer sample_config sample_env
          (sample_session [] (JStr (lit ''Why this role?''))) (JStr (lit '' I like it '')) 2000 2001)))
        (JStr (lit ''One more thing'')) 3000 3001)
     = ErrorJson 400 (lit ''Invalid state'')"
proof -
  let ?s = "sample_session [] (JStr (lit ''Why this role?''))"
  have t: "trim (lit '' I like it '') = lit ''I like it''"
    by (simp add: trim_def lit_def is_ws_def)
  have e: "end_time sample_env ?s = Num 60000"
    by (simp add: end_time_def opt_number_def sample_session_def exact_int_def)
  have p: "profile ?s \<noteq> None" and q: "truthy (current_question ?s)" and h: "history ?s = Some []"
    by (simp_all add: sample_session_def lit_Nil_iff)
  have n: "trim (lit '' I like it '') \<noteq> []" by (simp add: t lit_Nil_iff)
  have b: "fst (submit_answer sample_config sample_env ?s (JStr (lit '' I like it '')) 2000 2001)
             = TimeUpJson False"
    by (simp add: submit_answer_accepted [OF p q n h] e js_ge_def)
  show ?thesis
    using current_question_lifecycle [of sample_config sample_env ?s "JStr (lit '' I like it '')" 2000 2001
        "JStr (lit ''One more thing'')" 3000 3001, THEN conjunct1, THEN spec, THEN mp, OF b] b
    by simp
qed

section \<open>Remaining time\<close>

text \<open>
  Claim C3, as the code has it. On a started session whose \<open>duration_seconds\<close> is a whole
  number, with the start time, the duration in milliseconds and the observation times at
  most \<open>10 ^ 14\<close> in magnitude (any time in the next three thousand years), the remaining
  time reported is the number of whole seconds left,
  \<open>max(0, floor((end_time - now) / 1000))\<close>; it is never negative, and it does not increase
  when the observation time increases.
\<close>

theorem secondsLeft_whole_seconds:
  assumes "start_time s = Some t0" and "duration_seconds s = Some (Num (real_of_int d))"
    and "\<bar>t0\<bar> \<le> 10 ^ 14" and "\<bar>d * 1000\<bar> \<le> 10 ^ 14"
    and "\<bar>now\<bar> \<le> 10 ^ 14" and "\<bar>early\<bar> \<le> 10 ^ 14" and "\<bar>late\<bar> \<le> 10 ^ 14"
  shows "secondsLeft env s now =
           Num (real_of_int (max 0 \<lfloor>(real_of_int t0 + real_of_int d * 1000 - real_of_int now) / 1000\<rfloor>))
       \<and> js_le (Num 0) (secondsLeft env s now)
       \<and> (early \<le> late \<longrightarrow> js_le (secondsLeft env s late) (secondsLeft env s early))"
proof (intro conjI impI)
  have f: "\<lfloor>(real_of_int t0 + real_of_int d * 1000 - real_of_int now) / 1000\<rfloor>
             = (t0 + d * 1000 - now) div 1000"
    using floor_divide_of_int_eq [of "t0 + d * 1000 - now" 1000, where ?'a = real] by simp
  show "secondsLeft env s now =
           Num (real_of_int (max 0 \<lfloor>(real_of_int t0 + real_of_int d * 1000 - real_of_int now) / 1000\<rfloor>))"
    using secondsLeft_bounded [OF assms(1,2,3,4,5)] by (simp only: f)
  show "js_le (Num 0) (secondsLeft env s now)"
    by (simp add: secondsLeft_bounded [OF assms(1,2,3,4,5)])
  assume "early \<le> late"
  then have "(t0 + d * 1000 - late) div 1000 \<le> (t0 + d * 1000 - early) div 1000"
    by (intro zdiv_mono1) simp_all
  then show "js_le (secondsLeft env s late) (secondsLeft env s early)"
    by (simp add: secondsLeft_bounded [OF assms(1,2,3,4,7)]
        secondsLeft_bounded [OF assms(1,2,3,4,6)])
qed

theorem secondsLeft_whole_seconds_witness:
  "secondsLeft sample_env (sample_session [] JNull) 500 = Num 59
   \<and> js_le (Num 0) (secondsLeft sample_env (sample_session [] JNull) 500)
   \<and> js_le (secondsLeft sample_env (sample_session [] JNull) 61000)
            (secondsLeft sample_env (sample_session [] JNull) 500)"
proof -
  have t: "start_time (sample_session [] JNull) = Some 0"
    and d: "duration_seconds (sample_session [] JNull) = Some (Num (real_of_int 60))"
    by (simp_all add: sample_session_def)
  note w = secondsLeft_whole_seconds [OF t d, where now = 500 and early = 500 and late = 61000
      and env = sample_env]
  have b: "\<bar>0 :: int\<bar> \<le> 10 ^ 14" "\<bar>60 * 1000 :: int\<bar> \<le> 10 ^ 14"
    "\<bar>500 :: int\<bar> \<le> 10 ^ 14" "\<bar>61000 :: int\<bar> \<le> 10 ^ 14"
    by simp_all
  note v = w [OF b(1) b(2) b(3) b(3) b(4)]
  have 1: "secondsLeft sample_env (sample_session [] JNull) 500 = Num 59"
    using v [THEN conjunct1] by simp
  have 2: "js_le (Num 0) (secondsLeft sample_env (sample_session [] JNull) 500)"
    by (rule v [THEN conjunct2, THEN conjunct1])
  have 3: "js_le (secondsLeft sample_env (sample_session [] JNull) 61000)
            (secondsLeft sample_env (sample_session [] JNull) 500)"
    by (rule v [THEN conjunct2, THEN conjunct2, THEN mp]) simp
  show ?thesis using 1 2 3 by (intro conjI)
qed

text \<open>
  The remaining time is not \<open>max(0, end_time - now)\<close>: half a second into a one-minute
  interview, 59500 milliseconds (59.5 seconds) are left and 59 is reported.
\<close>

theorem secondsLeft_milliseconds_counterexample:
  "end_time sample_env (sample_session [] JNull) = Num 60000
   \<and> secondsLeft sample_env (sample_session [] JNull) 500 = Num 59
   \<and> secondsLeft sample_env (sample_session [] JNull) 500 \<noteq> Num (max 0 (60000 - 500))
   \<and> secondsLeft sample_env (sample_session [] JNull) 500 \<noteq> Num (max 0 ((60000 - 500) / 1000))"
  by (simp add: secondsLeft_def js_sub_def end_time_def opt_number_def sample_session_def
      exact_int_def)

section \<open>Context compaction\<close>

text \<open>
  Claim C4. On a session with more than five history entries, for a next-question request
  that is not answered by the end signal and whose summarizer replies with a text. If the
  request is answered at all, two requests are sent. The first asks the summarizer about
  exactly the entries before the last five: its one message is the instruction followed by
  the texts \<open>Q: ... A: ... Weakness: ...\<close> of those entries, joined by blank lines. The
  second, the question prompt, is the system message, the profile message, a message
  \<open>Brief summary of earlier exchanges:\<close> with the summarizer's trimmed reply, a message
  \<open>Last five Q&A and weaknesses:\<close> with the texts of the last five entries (five texts,
  each of which occurs in the message), and the closing message. The request is answered
  whenever the profile fields and the questions of the history are not arrays or objects.
  Every entry is either summarized or among the five printed. The question prompt is the
  same for any other history, of whatever length above five, that has the same last five
  entries (and gets the same summary): no older entry is printed in it and its size does
  not depend on the length of the interview.
\<close>

theorem context_compaction:
  assumes "profile s = Some p" and "history s = Some h" and "5 < length h"
    and "\<not> (js_ge (Num (of_int now)) (end_time env s) \<and> \<not> truthy (current_question s))"
    and "sr = Reply (Some c)"
  shows "(fst (next_question cfg env s now nl sr qr ns) \<noteq> Unhandled
          \<longrightarrow> (\<exists>systemText userText olds lasts.
                 those (map (\<lambda>x. map_option
                                    (\<lambda>q. lit ''Q: '' @ q @ lit ''\<newline>A: '' @ answer x
                                         @ lit ''\<newline>Weakness: ''
                                         @ (if weakness x = [] then lit ''Analyzing...''
                                            else weakness x))
                                    (to_string env (question x)))
                            (take (length h - 5) h)) = Some olds
                 \<and> those (map (\<lambda>x. map_option
                                    (\<lambda>q. lit ''Q: '' @ q @ lit ''\<newline>A: '' @ answer x
                                         @ lit ''\<newline>Weakness: ''
                                         @ (if weakness x = [] then lit ''Analyzing...''
                                            else weakness x))
                                    (to_string env (question x)))
                            (drop (length h - 5) h)) = Some lasts
                 \<and> length lasts = 5
                 \<and> (\<forall>t \<in> set lasts. \<exists>before after.
                        join (lit ''\<newline>\<newline>'') lasts = before @ t @ after)
                 \<and> snd (snd (next_question cfg env s now nl sr qr ns)) =
                     [\<lparr>model = OPENAI_MODEL cfg,
                       messages =
                         [\<lparr>role = lit ''user'',
                           content =
                             lit ''Summarize the following earlier interview exchanges (questions, answers, weaknesses) ''
                             @ lit ''in two brief sentences, focusing on overall strengths and weaknesses:\<newline>\<newline>''
                             @ join (lit ''\<newline>\<newline>'') olds\<rparr>],
                       temperature = 1 / 2\<rparr>,
                      \<lparr>model = OPENAI_MODEL cfg,
                       messages =
                         [\<lparr>role = lit ''system'', content = systemText\<rparr>,
                          \<lparr>role = lit ''user'', content = userText\<rparr>,
                          \<lparr>role = lit ''user'',
                           content = lit ''Brief summary of earlier exchanges:\<newline>'' @ trim c\<rparr>,
                          \<lparr>role = lit ''user'',
                           content = lit ''Last five Q&A and weaknesses:\<newline>''
                                     @ join (lit ''\<newline>\<newline>'') lasts\<rparr>,
                          \<lparr>role = lit ''user'', content = lit ''Ask the next question now.''\<rparr>],
                       temperature = 7 / 10\<rparr>]))
       \<and> (\<not> is_object (type p) \<and> \<not> is_object (resume p)
            \<and> (\<forall>x \<in> set h. \<not> is_object (question x))
          \<longrightarrow> fst (next_question cfg env s now nl sr qr ns) \<noteq> Unhandled)
       \<and> take (length h - 5) h @ drop (length h - 5) h = h
       \<and> (\<forall>other. 5 < length other \<and> drop (length other - 5) other = drop (length h - 5) h
                  \<and> fst (next_question cfg env s now nl sr qr ns) \<noteq> Unhandled
                  \<and> fst (next_question cfg env (s\<lparr>history := Some other\<rparr>) now nl sr qr ns)
                      \<noteq> Unhandled
             \<longrightarrow> last (snd (snd (next_question cfg env (s\<lparr>history := Some other\<rparr>) now nl sr qr ns)))
                 = last (snd (snd (next_question cfg env s now nl sr qr ns))))"
proof (intro conjI allI impI)
  assume u: "fst (next_question cfg env s now nl sr qr ns) \<noteq> Unhandled"
  from next_question_long_sent [OF assms u]
  obtain base sreq m where b: "base_messages env s p nl = Some base"
    and sq: "summarize_request cfg env (take (length h - 5) h) = Some sreq"
    and m: "last_five_message env h = Some m"
    and sent: "snd (snd (next_question cfg env s now nl sr qr ns)) =
               [sreq,
                \<lparr>model = OPENAI_MODEL cfg,
                 messages = base @ [summary_message (trim c), m, final_message],
                 temperature = 7 / 10\<rparr>]"
    by blast
  obtain systemText userText where base:
    "base = [\<lparr>role = lit ''system'', content = systemText\<rparr>,
             \<lparr>role = lit ''user'', content = userText\<rparr>]"
    using base_messages_shape [OF b] by blast
  obtain oldblock where ob: "history_block env (take (length h - 5) h) = Some oldblock"
    and sreq: "sreq = \<lparr>model = OPENAI_MODEL cfg,
                       messages =
                         [\<lparr>role = lit ''user'',
                           content =
                             lit ''Summarize the following earlier interview exchanges (questions, answers, weaknesses) ''
                             @ lit ''in two brief sentences, focusing on overall strengths and weaknesses:\<newline>\<newline>''
                             @ oldblock\<rparr>],
                       temperature = 1 / 2\<rparr>"
    using sq by (auto simp add: summarize_request_def)
  obtain lastblock where lb: "history_block env (drop (length h - 5) h) = Some lastblock"
    and mm: "m = \<lparr>role = lit ''user'',
                  content = lit ''Last five Q&A and weaknesses:\<newline>'' @ lastblock\<rparr>"
    using m by (auto simp add: last_five_message_def)
  from history_block_unfold [OF ob] obtain olds where
    olds: "those (map (\<lambda>x. map_option
                                    (\<lambda>q. lit ''Q: '' @ q @ lit ''\<newline>A: '' @ answer x
                                         @ lit ''\<newline>Weakness: ''
                                         @ (if weakness x = [] then lit ''Analyzing...''
                                            else weakness x))
                                    (to_string env (question x)))
                            (take (length h - 5) h)) = Some olds"
    and oj: "oldblock = join (lit ''\<newline>\<newline>'') olds"
    by blast
  from history_block_unfold [OF lb] obtain lasts where
    lasts: "those (map (\<lambda>x. map_option
                                    (\<lambda>q. lit ''Q: '' @ q @ lit ''\<newline>A: '' @ answer x
                                         @ lit ''\<newline>Weakness: ''
                                         @ (if weakness x = [] then lit ''Analyzing...''
                                            else weakness x))
                                    (to_string env (question x)))
                            (drop (length h - 5) h)) = Some lasts"
    and lj: "lastblock = join (lit ''\<newline>\<newline>'') lasts"
    by blast
  have len: "length lasts = 5"
    using those_map_nth [OF lasts] assms(3) by simp
  have cont: "\<forall>t \<in> set lasts. \<exists>before after.
                        join (lit ''\<newline>\<newline>'') lasts = before @ t @ after"
    using join_contains by fast
  have final: "snd (snd (next_question cfg env s now nl sr qr ns)) =
                     [\<lparr>model = OPENAI_MODEL cfg,
                       messages =
                         [\<lparr>role = lit ''user'',
                           content =
                             lit ''Summarize the following earlier interview exchanges (questions, answers, weaknesses) ''
                             @ lit ''in two brief sentences, focusing on overall strengths and weaknesses:\<newline>\<newline>''
                             @ join (lit ''\<newline>\<newline>'') olds\<rparr>],
                       temperature = 1 / 2\<rparr>,
                      \<lparr>model = OPENAI_MODEL cfg,
                       messages =
                         [\<lparr>role = lit ''system'', content = systemText\<rparr>,
                          \<lparr>role = lit ''user'', content = userText\<rparr>,
                          \<lparr>role = lit ''user'',
                           content = lit ''Brief summary of earlier exchanges:\<newline>'' @ trim c\<rparr>,
                          \<lparr>role = lit ''user'',
                           content = lit ''Last five Q&A and weaknesses:\<newline>''
                                     @ join (lit ''\<newline>\<newline>'') lasts\<rparr>,
                          \<lparr>role = lit ''user'', content = lit ''Ask the next question now.''\<rparr>],
                       temperature = 7 / 10\<rparr>]"
    by (simp add: sent sreq mm base oj lj summary_message_def final_message_def)
  show "\<exists>systemText userText olds lasts.
                 those (map (\<lambda>x. map_option
                                    (\<lambda>q. lit ''Q: '' @ q @ lit ''\<newline>A: '' @ answer x
                                         @ lit ''\<newline>Weakness: ''
                                         @ (if weakness x = [] then lit ''Analyzing...''
                                            else weakness x))
                                    (to_string env (question x)))
                            (take (length h - 5) h)) = Some olds
                 \<and> those (map (\<lambda>x. map_option
                                    (\<lambda>q. lit ''Q: '' @ q @ lit ''\<newline>A: '' @ answer x
                                         @ lit ''\<newline>Weakness: ''
                                         @ (if weakness x = [] then lit ''Analyzing...''
                                            else weakness x))
                                    (to_string env (question x)))
                            (drop (length h - 5) h)) = Some lasts
                 \<and> length lasts = 5
                 \<and> (\<forall>t \<in> set lasts. \<exists>before after.
                        join (lit ''\<newline>\<newline>'') lasts = before @ t @ after)
                 \<and> snd (snd (next_question cfg env s now nl sr qr ns)) =
                     [\<lparr>model = OPENAI_MODEL cfg,
                       messages =
                         [\<lparr>role = lit ''user'',
                           content =
                             lit ''Summarize the following earlier interview exchanges (questions, answers, weaknesses) ''
                             @ lit ''in two brief sentences, focusing on overall strengths and weaknesses:\<newline>\<newline>''
                             @ join (lit ''\<newline>\<newline>'') olds\<rparr>],
                       temperature = 1 / 2\<rparr>,
                      \<lparr>model = OPENAI_MODEL cfg,
                       messages =
                         [\<lparr>role = lit ''system'', content = systemText\<rparr>,
                          \<lparr>role = lit ''user'', content = userText\<rparr>,
                          \<lparr>role = lit ''user'',
                           content = lit ''Brief summary of earlier exchanges:\<newline>'' @ trim c\<rparr>,
                          \<lparr>role = lit ''user'',
                           content = lit ''Last five Q&A and weaknesses:\<newline>''
                                     @ join (lit ''\<newline>\<newline>'') lasts\<rparr>,
                          \<lparr>role = lit ''user'', content = lit ''Ask the next question now.''\<rparr>],
                       temperature = 7 / 10\<rparr>]"
    by (intro exI conjI) (rule olds, rule lasts, rule len, rule cont, rule final)
next
  assume a: "\<not> is_object (type p) \<and> \<not> is_object (resume p)
            \<and> (\<forall>x \<in> set h. \<not> is_object (question x))"
  have n': "\<not> (js_ge (Num (of_int now)) (end_time env s) \<and> h \<noteq> [] \<and> \<not> truthy (current_question s))"
    using assms(4) by blast
  obtain base where b: "base_messages env s p nl = Some base"
    using a base_messages_primitive by blast
  have q: "\<not> is_object (question x)" if "x \<in> set (drop (length h - 5) h)" for x
    using a that in_set_dropD by fast
  obtain blk where "history_block env (drop (length h - 5) h) = Some blk"
    using history_block_primitive [of "drop (length h - 5) h" env] q by blast
  then obtain m where m: "last_five_message env h = Some m"
    by (simp add: last_five_message_def)
  have q': "\<not> is_object (question x)" if "x \<in> set (take (length h - 5) h)" for x
    using a that in_set_takeD by fast
  obtain blk' where "history_block env (take (length h - 5) h) = Some blk'"
    using history_block_primitive [of "take (length h - 5) h" env] q' by blast
  then obtain sreq where sq: "summarize_request cfg env (take (length h - 5) h) = Some sreq"
    by (simp add: summarize_request_def)
  show "fst (next_question cfg env s now nl sr qr ns) \<noteq> Unhandled"
    using generate_question_not_unhandled(1) [of env s qr ns] m sq assms(5)
    by (simp add: next_question_long [OF assms(1,2) n' assms(3) b])
next
  show "take (length h - 5) h @ drop (length h - 5) h = h" by simp
next
  fix other :: "history_item list"
  assume a: "5 < length other \<and> drop (length other - 5) other = drop (length h - 5) h
                  \<and> fst (next_question cfg env s now nl sr qr ns) \<noteq> Unhandled
                  \<and> fst (next_question cfg env (s\<lparr>history := Some other\<rparr>) now nl sr qr ns)
                      \<noteq> Unhandled"
  let ?t = "s\<lparr>history := Some other\<rparr>"
  have p2: "profile ?t = Some p" using assms(1) by simp
  have h2: "history ?t = Some other" by simp
  have n2: "\<not> (js_ge (Num (of_int now)) (end_time env ?t) \<and> \<not> truthy (current_question ?t))"
    using assms(4) by (simp add: end_time_history)
  have l2: "5 < length other" using a by simp
  have u1: "fst (next_question cfg env s now nl sr qr ns) \<noteq> Unhandled" using a by simp
  have u2: "fst (next_question cfg env ?t now nl sr qr ns) \<noteq> Unhandled" using a by simp
  from next_question_long_sent [OF assms u1]
  obtain base sreq m where b: "base_messages env s p nl = Some base"
    and m: "last_five_message env h = Some m"
    and sent: "snd (snd (next_question cfg env s now nl sr qr ns)) =
               [sreq,
                \<lparr>model = OPENAI_MODEL cfg,
                 messages = base @ [summary_message (trim c), m, final_message],
                 temperature = 7 / 10\<rparr>]"
    by blast
  from next_question_long_sent [OF p2 h2 l2 n2 assms(5) u2]
  obtain base' sreq' m' where b': "base_messages env ?t p nl = Some base'"
    and m': "last_five_message env other = Some m'"
    and sent': "snd (snd (next_question cfg env ?t now nl sr qr ns)) =
               [sreq',
                \<lparr>model = OPENAI_MODEL cfg,
                 messages = base' @ [summary_message (trim c), m', final_message],
                 temperature = 7 / 10\<rparr>]"
    by blast
  have "base' = base" using b b' by (simp add: base_messages_history)
  moreover have "m' = m" using m m' a by (auto simp add: last_five_message_def)
  ultimately show "last (snd (snd (next_question cfg env ?t now nl sr qr ns)))
                 = last (snd (snd (next_question cfg env s now nl sr qr ns)))"
    by (simp add: sent sent')
qed


theorem context_compaction_witness:
  "fst (next_question sample_config sample_env
          (sample_session [older_item, sample_item, sample_item, sample_item, sample_item, sample_item] JNull)
          1000 1000 (Reply (Some (lit ''Short answers.''))) Failed 1000) \<noteq> Unhandled
   \<and> (\<exists>systemText userText.
        snd (snd (next_question sample_config sample_env
               (sample_session [older_item, sample_item, sample_item, sample_item, sample_item, sample_item] JNull)
               1000 1000 (Reply (Some (lit ''Short answers.''))) Failed 1000)) =
          [\<lparr>model = lit ''gpt-4o-mini'',
            messages =
              [\<lparr>role = lit ''user'',
                content =
                  lit ''Summarize the following earlier interview exchanges (questions, answers, weaknesses) ''
                  @ lit ''in two brief sentences, focusing on overall strengths and weaknesses:\<newline>\<newline>''
                  @ lit ''Q: '' @ lit ''Tell me about yourself.'' @ lit ''\<newline>A: ''
                  @ lit ''I am an engineer'' @ lit ''\<newline>Weakness: '' @ lit ''Too short.''\<rparr>],
            temperature = 1 / 2\<rparr>,
           \<lparr>model = lit ''gpt-4o-mini'',
            messages =
              [\<lparr>role = lit ''system'', content = systemText\<rparr>,
               \<lparr>role = lit ''user'', content = userText\<rparr>,
               \<lparr>role = lit ''user'',
                content = lit ''Brief summary of earlier exchanges:\<newline>''
                          @ trim (lit ''Short answers.'')\<rparr>,
               \<lparr>role = lit ''user'',
                content = lit ''Last five Q&A and weaknesses:\<newline>''
                          @ join (lit ''\<newline>\<newline>'')
                              (replicate 5
                                 (lit ''Q: '' @ lit ''Why this role?'' @ lit ''\<newline>A: ''
                                  @ lit ''I like it'' @ lit ''\<newline>Weakness: ''
                                  @ lit ''Analyzing...''))\<rparr>,
               \<lparr>role = lit ''user'', content = lit ''Ask the next question now.''\<rparr>],
            temperature = 7 / 10\<rparr>])
   \<and> last (snd (snd (next_question sample_config sample_env
               ((sample_session [older_item, sample_item, sample_item, sample_item, sample_item, sample_item] JNull)
                  \<lparr>history := Some [older_item, older_item, sample_item, sample_item, sample_item,
                                     sample_item, sample_item]\<rparr>)
               1000 1000 (Reply (Some (lit ''Short answers.''))) Failed 1000)))
     = last (snd (snd (next_question sample_config sample_env
               (sample_session [older_item, sample_item, sample_item, sample_item, sample_item, sample_item] JNull)
               1000 1000 (Reply (Some (lit ''Short answers.''))) Failed 1000)))"
proof -
  let ?h = "[older_item, sample_item, sample_item, sample_item, sample_item, sample_item]"
  let ?h2 = "[older_item, older_item, sample_item, sample_item, sample_item, sample_item, sample_item]"
  let ?p = "\<lparr>type = JStr (lit ''Backend Engineer''), resume = JStr (lit ''Five years of Go'')\<rparr>"
  let ?s = "sample_session ?h JNull"
  let ?t = "?s\<lparr>history := Some ?h2\<rparr>"
  have p: "profile ?s = Some ?p" and h: "history ?s = Some ?h"
    by (simp_all add: sample_session_def)
  have p2: "profile ?t = Some ?p" and h2: "history ?t = Some ?h2"
    by (simp_all add: sample_session_def)
  have l: "5 < length ?h" and l2: "5 < length ?h2" by simp_all
  have e: "end_time sample_env ?s = Num 60000"
    by (simp add: end_time_def opt_number_def sample_session_def exact_int_def)
  have n: "\<not> (js_ge (Num (of_int 1000)) (end_time sample_env ?s) \<and> \<not> truthy (current_question ?s))"
    by (simp add: e js_ge_def)
  have n2: "\<not> (js_ge (Num (of_int 1000)) (end_time sample_env ?t) \<and> \<not> truthy (current_question ?t))"
    by (simp add: e end_time_history js_ge_def)
  have prim: "\<not> is_object (type ?p) \<and> \<not> is_object (resume ?p)
              \<and> (\<forall>x \<in> set ?h. \<not> is_object (question x))"
    by (simp add: is_object_def sample_item_def older_item_def)
  have prim2: "\<not> is_object (type ?p) \<and> \<not> is_object (resume ?p)
              \<and> (\<forall>x \<in> set ?h2. \<not> is_object (question x))"
    by (simp add: is_object_def sample_item_def older_item_def)
  note cc = context_compaction [OF p h l n refl,
      where cfg = sample_config and nl = 1000 and ns = 1000 and qr = Failed]
  note cc2 = context_compaction [OF p2 h2 l2 n2 refl,
      where cfg = sample_config and nl = 1000 and ns = 1000 and qr = Failed]
  have u: "fst (next_question sample_config sample_env ?s 1000 1000
                  (Reply (Some (lit ''Short answers.''))) Failed 1000) \<noteq> Unhandled"
    by (rule cc [THEN conjunct2, THEN conjunct1, THEN mp, OF prim])
  have u2: "fst (next_question sample_config sample_env ?t 1000 1000
                  (Reply (Some (lit ''Short answers.''))) Failed 1000) \<noteq> Unhandled"
    by (rule cc2 [THEN conjunct2, THEN conjunct1, THEN mp, OF prim2])
  from cc [THEN conjunct1, THEN mp, OF u]
  obtain systemText userText olds lasts where
    o: "those (map (\<lambda>x. map_option
                                    (\<lambda>q. lit ''Q: '' @ q @ lit ''\<newline>A: '' @ answer x
                                         @ lit ''\<newline>Weakness: ''
                                         @ (if weakness x = [] then lit ''Analyzing...''
                                            else weakness x))
                                    (to_string sample_env (question x)))
                            (take (length ?h - 5) ?h)) = Some olds"
    and la: "those (map (\<lambda>x. map_option
                                    (\<lambda>q. lit ''Q: '' @ q @ lit ''\<newline>A: '' @ answer x
                                         @ lit ''\<newline>Weakness: ''
                                         @ (if weakness x = [] then lit ''Analyzing...''
                                            else weakness x))
                                    (to_string sample_env (question x)))
                            (drop (length ?h - 5) ?h)) = Some lasts"
    and sent: "snd (snd (next_question sample_config sample_env ?s 1000 1000
                  (Reply (Some (lit ''Short answers.''))) Failed 1000)) =
                     [\<lparr>model = OPENAI_MODEL sample_config,
                       messages =
                         [\<lparr>role = lit ''user'',
                           content =
                             lit ''Summarize the following earlier interview exchanges (questions, answers, weaknesses) ''
                             @ lit ''in two brief sentences, focusing on overall strengths and weaknesses:\<newline>\<newline>''
                             @ join (lit ''\<newline>\<newline>'') olds\<rparr>],
                       temperature = 1 / 2\<rparr>,
                      \<lparr>model = OPENAI_MODEL sample_config,
                       messages =
                         [\<lparr>role = lit ''system'', content = systemText\<rparr>,
                          \<lparr>role = lit ''user'', content = userText\<rparr>,
                          \<lparr>role = lit ''user'',
                           content = lit ''Brief summary of earlier exchanges:\<newline>''
                                     @ trim (lit ''Short answers.'')\<rparr>,
                          \<lparr>role = lit ''user'',
                           content = lit ''Last five Q&A and weaknesses:\<newline>''
                                     @ join (lit ''\<newline>\<newline>'') lasts\<rparr>,
                          \<lparr>role = lit ''user'', content = lit ''Ask the next question now.''\<rparr>],
                       temperature = 7 / 10\<rparr>]"
    by blast
  have olds: "olds = [lit ''Q: '' @ lit ''Tell me about yourself.'' @ lit ''\<newline>A: ''
                  @ lit ''I am an engineer'' @ lit ''\<newline>Weakness: '' @ lit ''Too short.'']"
    using o by (simp add: older_item_def lit_Nil_iff)
  have lasts: "lasts = replicate 5
                                 (lit ''Q: '' @ lit ''Why this role?'' @ lit ''\<newline>A: ''
                                  @ lit ''I like it'' @ lit ''\<newline>Weakness: ''
                                  @ lit ''Analyzing...'')"
    using la by (simp add: sample_item_def lit_Nil_iff numeral_eq_Suc)
  have m: "OPENAI_MODEL sample_config = lit ''gpt-4o-mini''"
    by (simp add: sample_config_def)
  have d: "5 < length ?h2 \<and> drop (length ?h2 - 5) ?h2 = drop (length ?h - 5) ?h"
    by simp
  have same: "last (snd (snd (next_question sample_config sample_env ?t 1000 1000
                  (Reply (Some (lit ''Short answers.''))) Failed 1000)))
     = last (snd (snd (next_question sample_config sample_env ?s 1000 1000
                  (Reply (Some (lit ''Short answers.''))) Failed 1000)))"
    by (rule cc [THEN conjunct2, THEN conjunct2, THEN conjunct2, THEN spec, THEN mp])
       (intro conjI, rule l2, rule d [THEN conjunct2], rule u, rule u2)
  have ex: "\<exists>systemText userText.
        snd (snd (next_question sample_config sample_env ?s
               1000 1000 (Reply (Some (lit ''Short answers.''))) Failed 1000)) =
          [\<lparr>model = lit ''gpt-4o-mini'',
            messages =
              [\<lparr>role = lit ''user'',
                content =
                  lit ''Summarize the following earlier interview exchanges (questions, answers, weaknesses) ''
                  @ lit ''in two brief sentences, focusing on overall strengths and weaknesses:\<newline>\<newline>''
                  @ lit ''Q: '' @ lit ''Tell me about yourself.'' @ lit ''\<newline>A: ''
                  @ lit ''I am an engineer'' @ lit ''\<newline>Weakness: '' @ lit ''Too short.''\<rparr>],
            temperature = 1 / 2\<rparr>,
           \<lparr>model = lit ''gpt-4o-mini'',
            messages =
              [\<lparr>role = lit ''system'', content = systemText\<rparr>,
               \<lparr>role = lit ''user'', content = userText\<rparr>,
               \<lparr>role = lit ''user'',
                content = lit ''Brief summary of earlier exchanges:\<newline>''
                          @ trim (lit ''Short answers.'')\<rparr>,
               \<lparr>role = lit ''user'',
                content = lit ''Last five Q&A and weaknesses:\<newline>''
                          @ join (lit ''\<newline>\<newline>'')
                              (replicate 5
                                 (lit ''Q: '' @ lit ''Why this role?'' @ lit ''\<newline>A: ''
                                  @ lit ''I like it'' @ lit ''\<newline>Weakness: ''
                                  @ lit ''Analyzing...''))\<rparr>,
               \<lparr>role = lit ''user'', content = lit ''Ask the next question now.''\<rparr>],
            temperature = 7 / 10\<rparr>]"
    unfolding sent olds lasts m by (intro exI) simp
  show ?thesis
    by (intro conjI) (rule u, rule ex, rule same)
qed

section \<open>The final result\<close>

text \<open>
  Claim C5, as the code has it. A result request on a session whose history is absent or
  empty is answered with status 400 and \<open>No interview data\<close>, and nothing is sent to the
  collaborator. With a non-empty history and a reply that is a text: when the text holds no
  parseable object, or an empty one, the response is exactly \<open>Fail\<close>, 0 and the empty
  string, with the history; when it holds an object, each field is defaulted on its own:
  \<open>status\<close> is \<open>Fail\<close> when it is absent or falsy and the object's value otherwise,
  \<open>confidence\<close> is 0 when it is absent or \<open>null\<close> and the object's value otherwise, \<open>reason\<close>
  is the empty string when it is absent or falsy and the object's value otherwise. A
  failed call, or a reply whose content is \<open>null\<close>, is answered with status 500.
\<close>

theorem result_fail_closed:
  "(history s = None \<or> history s = Some []
      \<longrightarrow> result cfg env s reply = (ErrorJson 400 (lit ''No interview data''), []))
   \<and> (history s = Some h \<and> h \<noteq> [] \<and> reply = Reply (Some raw)
      \<longrightarrow> (regex_braces raw = None
            \<or> (\<exists>m. regex_braces raw = Some m \<and> JSON_parse env m = None)
            \<or> (\<exists>m. regex_braces raw = Some m \<and> JSON_parse env m = Some [])
            \<longrightarrow> fst (result cfg env s reply)
                = ResultJson (JStr (lit ''Fail'')) (JNum 0) (JStr []) h)
        \<and> (\<forall>m obj. regex_braces raw = Some m \<and> JSON_parse env m = Some obj
             \<longrightarrow> fst (result cfg env s reply)
                 = ResultJson
                     (case map_of obj (lit ''status'') of
                        None \<Rightarrow> JStr (lit ''Fail'')
                      | Some v \<Rightarrow> if truthy v then v else JStr (lit ''Fail''))
                     (case map_of obj (lit ''confidence'') of
                        None \<Rightarrow> JNum 0
                      | Some v \<Rightarrow> if v = JNull \<or> v = JUndefined then JNum 0 else v)
                     (case map_of obj (lit ''reason'') of
                        None \<Rightarrow> JStr []
                      | Some v \<Rightarrow> if truthy v then v else JStr [])
                     h))
   \<and> (history s = Some h \<and> h \<noteq> [] \<and> (reply = Failed \<or> reply = Reply None)
      \<longrightarrow> fst (result cfg env s reply) = ErrorJson 500 (lit ''Failed to compute result''))"
proof (intro conjI impI allI)
  assume "history s = None \<or> history s = Some []"
  then show "result cfg env s reply = (ErrorJson 400 (lit ''No interview data''), [])"
    by (rule result_no_data)
next
  assume a: "history s = Some h \<and> h \<noteq> [] \<and> reply = Reply (Some raw)"
    and m: "regex_braces raw = None
            \<or> (\<exists>m. regex_braces raw = Some m \<and> JSON_parse env m = None)
            \<or> (\<exists>m. regex_braces raw = Some m \<and> JSON_parse env m = Some [])"
  from m have e: "extractJson env raw = []"
    by (auto simp add: extractJson_def)
  show "fst (result cfg env s reply) = ResultJson (JStr (lit ''Fail'')) (JNum 0) (JStr []) h"
    using a by (simp add: result_reply e get_prop_def js_or_def nullish_def)
next
  fix m obj
  assume a: "history s = Some h \<and> h \<noteq> [] \<and> reply = Reply (Some raw)"
    and m: "regex_braces raw = Some m \<and> JSON_parse env m = Some obj"
  from m have e: "extractJson env raw = obj"
    by (simp add: extractJson_def)
  show "fst (result cfg env s reply)
                 = ResultJson
                     (case map_of obj (lit ''status'') of
                        None \<Rightarrow> JStr (lit ''Fail'')
                      | Some v \<Rightarrow> if truthy v then v else JStr (lit ''Fail''))
                     (case map_of obj (lit ''confidence'') of
                        None \<Rightarrow> JNum 0
                      | Some v \<Rightarrow> if v = JNull \<or> v = JUndefined then JNum 0 else v)
                     (case map_of obj (lit ''reason'') of
                        None \<Rightarrow> JStr []
                      | Some v \<Rightarrow> if truthy v then v else JStr [])
                     h"
    using a by (simp add: result_reply e get_prop_def js_or_def nullish_def split: option.split)
next
  assume a: "history s = Some h \<and> h \<noteq> [] \<and> (reply = Failed \<or> reply = Reply None)"
  then show "fst (result cfg env s reply) = ErrorJson 500 (lit ''Failed to compute result'')"
    by (auto simp add: result_def)
qed

theorem result_fail_closed_witness:
  \<open>result sample_config sample_env fresh_session (Reply (Some (lit ''The candidate did well.'')))
     = (ErrorJson 400 (lit ''No interview data''), [])
   \<and> fst (result sample_config sample_env (sample_session [sample_item] JNull)
            (Reply (Some (lit ''The candidate did well.''))))
     = ResultJson (JStr (lit ''Fail'')) (JNum 0) (JStr []) [sample_item]
   \<and> fst (result sample_config sample_env (sample_session [sample_item] JNull)
            (Reply (Some (lit ''{"status": "Success"}''))))
     = ResultJson (JStr (lit ''Success'')) (JNum 0) (JStr []) [sample_item]
   \<and> fst (result sample_config sample_env (sample_session [sample_item] JNull) Failed)
     = ErrorJson 500 (lit ''Failed to compute result'')\<close>
proof -
  let ?s = "sample_session [sample_item] JNull"
  have n: "history fresh_session = None \<or> history fresh_session = Some []"
    by (simp add: fresh_session_def)
  have h: "history ?s = Some [sample_item] \<and> [sample_item] \<noteq> []
           \<and> Reply (Some (lit ''The candidate did well.'')) = Reply (Some (lit ''The candidate did well.''))"
    by (simp add: sample_session_def)
  have h2: \<open>history ?s = Some [sample_item] \<and> [sample_item] \<noteq> []
           \<and> Reply (Some (lit ''{"status": "Success"}'')) = Reply (Some (lit ''{"status": "Success"}''))\<close>
    by (simp add: sample_session_def)
  have h3: "history ?s = Some [sample_item] \<and> [sample_item] \<noteq> []
           \<and> (Failed = Failed \<or> Failed = Reply None)"
    by (simp add: sample_session_def)
  have r: "regex_braces (lit ''The candidate did well.'') = None
            \<or> (\<exists>m. regex_braces (lit ''The candidate did well.'') = Some m \<and> JSON_parse sample_env m = None)
            \<or> (\<exists>m. regex_braces (lit ''The candidate did well.'') = Some m \<and> JSON_parse sample_env m = Some [])"
    by (simp add: regex_braces_def lit_def)
  have r2: \<open>regex_braces (lit ''{"status": "Success"}'') = Some (lit ''{"status": "Success"}'')
            \<and> JSON_parse sample_env (lit ''{"status": "Success"}'')
                = Some [(lit ''status'', JStr (lit ''Success''))]\<close>
    by (simp add: regex_braces_def sample_env_def lit_eq_iff) (simp add: lit_def)
  have c1: "result sample_config sample_env fresh_session (Reply (Some (lit ''The candidate did well.'')))
     = (ErrorJson 400 (lit ''No interview data''), [])"
    by (rule result_fail_closed [THEN conjunct1, THEN mp, OF n])
  have c2: "fst (result sample_config sample_env ?s (Reply (Some (lit ''The candidate did well.''))))
     = ResultJson (JStr (lit ''Fail'')) (JNum 0) (JStr []) [sample_item]"
    by (rule result_fail_closed [THEN conjunct2, THEN conjunct1, THEN mp, OF h, THEN conjunct1,
          THEN mp, OF r])
  have c3: \<open>fst (result sample_config sample_env ?s (Reply (Some (lit ''{"status": "Success"}''))))
     = ResultJson (JStr (lit ''Success'')) (JNum 0) (JStr []) [sample_item]\<close>
    using result_fail_closed [THEN conjunct2, THEN conjunct1, THEN mp, OF h2, THEN conjunct2,
          THEN spec, THEN spec, THEN mp, OF r2]
    by (simp add: lit_eq_iff lit_Nil_iff)
  have c4: "fst (result sample_config sample_env ?s Failed)
     = ErrorJson 500 (lit ''Failed to compute result'')"
    by (rule result_fail_closed [THEN conjunct2, THEN conjunct2, THEN mp, OF h3])
  show ?thesis
    by (intro conjI) (rule c1, rule c2, rule c3, rule c4)
qed

text \<open>
  A reply with missing fields does not make the whole response default to \<open>Fail\<close>: the
  reply \<open>{"status": "Success"}\<close> has neither \<open>confidence\<close> nor \<open>reason\<close>, and the response
  carries its status \<open>Success\<close>.
\<close>

theorem result_partial_reply_counterexample:
  \<open>regex_braces (lit ''{"status": "Success"}'') = Some (lit ''{"status": "Success"}'')
   \<and> map_of (extractJson sample_env (lit ''{"status": "Success"}'')) (lit ''confidence'') = None
   \<and> map_of (extractJson sample_env (lit ''{"status": "Success"}'')) (lit ''reason'') = None
   \<and> fst (result sample_config sample_env (sample_session [sample_item] JNull)
            (Reply (Some (lit ''{"status": "Success"}''))))
       = ResultJson (JStr (lit ''Success'')) (JNum 0) (JStr []) [sample_item]
   \<and> fst (result sample_config sample_env (sample_session [sample_item] JNull)
            (Reply (Some (lit ''{"status": "Success"}''))))
       \<noteq> ResultJson (JStr (lit ''Fail'')) (JNum 0) (JStr []) [sample_item]\<close>
proof -
  have r: \<open>regex_braces (lit ''{"status": "Success"}'') = Some (lit ''{"status": "Success"}'')\<close>
    by (simp add: regex_braces_def lit_def)
  have e: \<open>extractJson sample_env (lit ''{"status": "Success"}'')
             = [(lit ''status'', JStr (lit ''Success''))]\<close>
    by (simp add: extractJson_def r sample_env_def lit_eq_iff)
  have h: "history (sample_session [sample_item] JNull) = Some [sample_item]"
    by (simp add: sample_session_def)
  show ?thesis
    by (simp add: r e result_reply [OF h] get_prop_def js_or_def nullish_def lit_eq_iff lit_Nil_iff)
qed

section \<open>Starting an interview\<close>




section \<open>The question returned by next-question\<close>

text \<open>
  Claim C7, as the code has it. When a next-question request that is not answered by the
  end signal is answered at all and the completion collaborator replies with a text, the
  question is the \<open>question\<close>
  property of the object parsed from the reply if that property is truthy, and the fixed
  default \<open>Tell me about yourself.\<close> otherwise, in particular when the reply holds no
  parseable object or the object has no such property. The question returned to the
  client is stored as \<open>current_question\<close>, with \<open>current_question_started_at\<close> stamped. It
  is always truthy; when it is a string it is not empty, and a non-empty string given by
  the reply is returned as it is. The request is answered whenever the profile fields and
  the questions of the history are not arrays or objects and, with more than five entries,
  the summarizer replies with a text.
\<close>

theorem question_fallback_and_storage:
  assumes "profile s = Some p" and "history s = Some h"
    and "\<not> (js_ge (Num (of_int now)) (end_time env s) \<and> h \<noteq> [] \<and> \<not> truthy (current_question s))"
    and "qr = Reply (Some c)"
  shows "(fst (next_question cfg env s now nl sr qr ns) \<noteq> Unhandled
          \<longrightarrow> (\<exists>q. fst (next_question cfg env s now nl sr qr ns) = QuestionJson q
           \<and> fst (snd (next_question cfg env s now nl sr qr ns))
               = s\<lparr>current_question := q, current_question_started_at := Some ns\<rparr>
           \<and> q = js_or (get_prop (extractJson env (trim c)) (lit ''question''))
                       (JStr (lit ''Tell me about yourself.''))
           \<and> truthy q
           \<and> (\<forall>t. q = JStr t \<longrightarrow> t \<noteq> [])
           \<and> (regex_braces (trim c) = None
               \<or> (\<exists>m. regex_braces (trim c) = Some m \<and> JSON_parse env m = None)
               \<or> map_of (extractJson env (trim c)) (lit ''question'') = None
               \<longrightarrow> q = JStr (lit ''Tell me about yourself.''))
           \<and> (\<forall>t. map_of (extractJson env (trim c)) (lit ''question'') = Some (JStr t) \<and> t \<noteq> []
               \<longrightarrow> q = JStr t)))
       \<and> (\<not> is_object (type p) \<and> \<not> is_object (resume p)
            \<and> (\<forall>x \<in> set h. \<not> is_object (question x))
            \<and> (length h \<le> 5 \<or> (\<exists>c'. sr = Reply (Some c')))
          \<longrightarrow> fst (next_question cfg env s now nl sr qr ns) \<noteq> Unhandled)"
proof (intro conjI impI)
  assume u: "fst (next_question cfg env s now nl sr qr ns) \<noteq> Unhandled"
  let ?q = "js_or (get_prop (extractJson env (trim c)) (lit ''question''))
                  (JStr (lit ''Tell me about yourself.''))"
  from next_question_generation [OF assms(1,2,3), of cfg nl sr qr ns] u
  have f: "fst (next_question cfg env s now nl sr qr ns) = fst (generate_question env s qr ns)
           \<and> fst (snd (next_question cfg env s now nl sr qr ns)) = snd (generate_question env s qr ns)"
    by (elim disjE exE conjE) simp_all
  have g: "generate_question env s qr ns
             = (QuestionJson ?q, s\<lparr>current_question := ?q, current_question_started_at := Some ns\<rparr>)"
    unfolding assms(4) by (rule generate_question_reply)
  have run: "fst (next_question cfg env s now nl sr qr ns) = QuestionJson ?q
           \<and> fst (snd (next_question cfg env s now nl sr qr ns))
               = s\<lparr>current_question := ?q, current_question_started_at := Some ns\<rparr>"
    using f by (simp add: g)
  have d: "truthy (JStr (lit ''Tell me about yourself.''))"
    by (simp add: lit_Nil_iff)
  have t: "truthy ?q" using d by (rule js_or_default_truthy)
  have str: "\<forall>t. ?q = JStr t \<longrightarrow> t \<noteq> []"
    using t by auto
  have fallback: "regex_braces (trim c) = None
               \<or> (\<exists>m. regex_braces (trim c) = Some m \<and> JSON_parse env m = None)
               \<or> map_of (extractJson env (trim c)) (lit ''question'') = None
               \<longrightarrow> ?q = JStr (lit ''Tell me about yourself.'')"
    by (auto simp add: extractJson_def get_prop_def js_or_def)
  have given: "\<forall>t. map_of (extractJson env (trim c)) (lit ''question'') = Some (JStr t) \<and> t \<noteq> []
               \<longrightarrow> ?q = JStr t"
    by (simp add: get_prop_def js_or_def)
  show "\<exists>q. fst (next_question cfg env s now nl sr qr ns) = QuestionJson q
           \<and> fst (snd (next_question cfg env s now nl sr qr ns))
               = s\<lparr>current_question := q, current_question_started_at := Some ns\<rparr>
           \<and> q = js_or (get_prop (extractJson env (trim c)) (lit ''question''))
                       (JStr (lit ''Tell me about yourself.''))
           \<and> truthy q
           \<and> (\<forall>t. q = JStr t \<longrightarrow> t \<noteq> [])
           \<and> (regex_braces (trim c) = None
               \<or> (\<exists>m. regex_braces (trim c) = Some m \<and> JSON_parse env m = None)
               \<or> map_of (extractJson env (trim c)) (lit ''question'') = None
               \<longrightarrow> q = JStr (lit ''Tell me about yourself.''))
           \<and> (\<forall>t. map_of (extractJson env (trim c)) (lit ''question'') = Some (JStr t) \<and> t \<noteq> []
               \<longrightarrow> q = JStr t)"
  proof (rule exI [of _ ?q], intro conjI)
    show "fst (next_question cfg env s now nl sr qr ns) = QuestionJson ?q"
      using run by (rule conjunct1)
    show "fst (snd (next_question cfg env s now nl sr qr ns))
            = s\<lparr>current_question := ?q, current_question_started_at := Some ns\<rparr>"
      using run by (rule conjunct2)
    show "?q = ?q" by (rule refl)
    show "truthy ?q" by (rule t)
    show "\<forall>t. ?q = JStr t \<longrightarrow> t \<noteq> []" by (rule str)
    show "regex_braces (trim c) = None
               \<or> (\<exists>m. regex_braces (trim c) = Some m \<and> JSON_parse env m = None)
               \<or> map_of (extractJson env (trim c)) (lit ''question'') = None
               \<longrightarrow> ?q = JStr (lit ''Tell me about yourself.'')"
      by (rule fallback)
    show "\<forall>t. map_of (extractJson env (trim c)) (lit ''question'') = Some (JStr t) \<and> t \<noteq> []
               \<longrightarrow> ?q = JStr t"
      by (rule given)
  qed
next
  assume a: "\<not> is_object (type p) \<and> \<not> is_object (resume p)
            \<and> (\<forall>x \<in> set h. \<not> is_object (question x))
            \<and> (length h \<le> 5 \<or> (\<exists>c'. sr = Reply (Some c')))"
  show "fst (next_question cfg env s now nl sr qr ns) \<noteq> Unhandled"
    by (rule next_question_handled [OF assms(1,2,3)]) (simp_all add: a)
qed

theorem question_fallback_and_storage_witness:
  \<open>fst (next_question sample_config sample_env (sample_session [] JNull) 1000 1000 Failed
          (Reply (Some (lit ''I cannot answer that.''))) 1000)
     = QuestionJson (JStr (lit ''Tell me about yourself.''))
   \<and> fst (snd (next_question sample_config sample_env (sample_session [] JNull) 1000 1000 Failed
          (Reply (Some (lit ''I cannot answer that.''))) 1000))
     = (sample_session [] JNull)
         \<lparr>current_question := JStr (lit ''Tell me about yourself.''),
          current_question_started_at := Some 1000\<rparr>
   \<and> fst (next_question sample_config sample_env (sample_session [] JNull) 1000 1000 Failed
          (Reply (Some (lit ''{"question": "Why this role?"}''))) 1000)
     = QuestionJson (JStr (lit ''Why this role?''))\<close>
proof -
  let ?s = "sample_session [] JNull"
  let ?p = "\<lparr>type = JStr (lit ''Backend Engineer''), resume = JStr (lit ''Five years of Go'')\<rparr>"
  have p: "profile ?s = Some ?p"
    and h: "history ?s = Some []"
    by (simp_all add: sample_session_def)
  have n: "\<not> (js_ge (Num (of_int 1000)) (end_time sample_env ?s) \<and> ([] :: history_item list) \<noteq> []
              \<and> \<not> truthy (current_question ?s))"
    by simp
  have l: "\<not> is_object (type ?p) \<and> \<not> is_object (resume ?p)
            \<and> (\<forall>x \<in> set ([] :: history_item list). \<not> is_object (question x))
            \<and> (length ([] :: history_item list) \<le> 5 \<or> (\<exists>c'. Failed = Reply (Some c')))"
    by (simp add: is_object_def)
  have r: "regex_braces (trim (lit ''I cannot answer that.'')) = None"
    by (simp add: regex_braces_def trim_def lit_def is_ws_def)
  have t: \<open>trim (lit ''{"question": "Why this role?"}'') = lit ''{"question": "Why this role?"}''\<close>
    by (simp add: trim_def lit_def is_ws_def)
  have m: \<open>regex_braces (lit ''{"question": "Why this role?"}'')
             = Some (lit ''{"question": "Why this role?"}'')\<close>
    by (simp add: regex_braces_def lit_def)
  have e: \<open>map_of (extractJson sample_env (trim (lit ''{"question": "Why this role?"}'')))
             (lit ''question'') = Some (JStr (lit ''Why this role?''))\<close>
    by (simp add: t extractJson_def m sample_env_def)
  note one = question_fallback_and_storage [OF p h n refl,
        where cfg = sample_config and nl = 1000 and ns = 1000 and sr = Failed
          and c = "lit ''I cannot answer that.''"]
  note two = question_fallback_and_storage [OF p h n refl,
        where cfg = sample_config and nl = 1000 and ns = 1000 and sr = Failed
          and c = \<open>lit ''{"question": "Why this role?"}''\<close>]
  have u1: "fst (next_question sample_config sample_env ?s 1000 1000 Failed
                  (Reply (Some (lit ''I cannot answer that.''))) 1000) \<noteq> Unhandled"
    by (rule one [THEN conjunct2, THEN mp, OF l])
  have u2: \<open>fst (next_question sample_config sample_env ?s 1000 1000 Failed
                  (Reply (Some (lit ''{"question": "Why this role?"}''))) 1000) \<noteq> Unhandled\<close>
    by (rule two [THEN conjunct2, THEN mp, OF l])
  obtain q1 where a1: "fst (next_question sample_config sample_env ?s 1000 1000 Failed
                  (Reply (Some (lit ''I cannot answer that.''))) 1000) = QuestionJson q1"
    and s1: "fst (snd (next_question sample_config sample_env ?s 1000 1000 Failed
                  (Reply (Some (lit ''I cannot answer that.''))) 1000))
             = ?s\<lparr>current_question := q1, current_question_started_at := Some 1000\<rparr>"
    and b1: "regex_braces (trim (lit ''I cannot answer that.'')) = None
               \<or> (\<exists>m. regex_braces (trim (lit ''I cannot answer that.'')) = Some m
                       \<and> JSON_parse sample_env m = None)
               \<or> map_of (extractJson sample_env (trim (lit ''I cannot answer that.'')))
                    (lit ''question'') = None
               \<longrightarrow> q1 = JStr (lit ''Tell me about yourself.'')"
    using one [THEN conjunct1, THEN mp, OF u1] by (elim exE conjE)
  have q1: "q1 = JStr (lit ''Tell me about yourself.'')"
    using b1 r by blast
  obtain q where a: \<open>fst (next_question sample_config sample_env ?s 1000 1000 Failed
                  (Reply (Some (lit ''{"question": "Why this role?"}''))) 1000) = QuestionJson q\<close>
    and b: \<open>\<forall>t. map_of (extractJson sample_env (trim (lit ''{"question": "Why this role?"}'')))
                   (lit ''question'') = Some (JStr t) \<and> t \<noteq> []
               \<longrightarrow> q = JStr t\<close>
    using two [THEN conjunct1, THEN mp, OF u2] by (elim exE conjE)
  have q: "q = JStr (lit ''Why this role?'')"
    using b e by (simp add: lit_Nil_iff)
  show ?thesis
    unfolding a a1 s1 q q1 by (intro conjI) (rule refl)+
qed

text \<open>
  The question returned is not always a string: the reply \<open>{"question": 42}\<close> makes the
  handler return and store the number 42.
\<close>

theorem question_not_a_string_counterexample:
  \<open>fst (next_question sample_config sample_env (sample_session [] JNull) 1000 1000 Failed
          (Reply (Some (lit ''{"question": 42}''))) 1000)
     = QuestionJson (JNum 42)
   \<and> current_question (fst (snd (next_question sample_config sample_env (sample_session [] JNull)
          1000 1000 Failed (Reply (Some (lit ''{"question": 42}''))) 1000))) = JNum 42
   \<and> \<not> nonempty_string (JNum 42)\<close>
proof -
  have t: \<open>trim (lit ''{"question": 42}'') = lit ''{"question": 42}''\<close>
    by (simp add: trim_def lit_def is_ws_def)
  have r: \<open>regex_braces (lit ''{"question": 42}'') = Some (lit ''{"question": 42}'')\<close>
    by (simp add: regex_braces_def lit_def)
  have e: \<open>extractJson sample_env (lit ''{"question": 42}'') = [(lit ''question'', JNum 42)]\<close>
    by (simp add: extractJson_def r sample_env_def lit_eq_iff)
  let ?s = "sample_session [] JNull"
  let ?p = "\<lparr>type = JStr (lit ''Backend Engineer''), resume = JStr (lit ''Five years of Go'')\<rparr>"
  have p: "profile ?s = Some ?p" and h: "history ?s = Some []"
    by (simp_all add: sample_session_def)
  obtain base where b: "base_messages sample_env ?s ?p 1000 = Some base"
    using base_messages_primitive [of ?p sample_env ?s 1000] by (auto simp add: is_object_def)
  have g: \<open>generate_question sample_env ?s (Reply (Some (lit ''{"question": 42}''))) 1000
             = (QuestionJson (JNum 42),
                ?s\<lparr>current_question := JNum 42, current_question_started_at := Some 1000\<rparr>)\<close>
    by (simp add: generate_question_reply t e get_prop_def js_or_def lit_eq_iff)
  show ?thesis
    by (simp add: next_question_empty [OF p h b] g nonempty_string_def)
qed

section \<open>Growth of the history\<close>

text \<open>
  Claim C8. A successful answer submission (one answered with \<open>time_up\<close>) appends exactly
  one item to the history, holding the pending question and the trimmed answer, so the
  length of the history grows by exactly one; a submission that does not succeed leaves
  the history as it was, and a submission with a profile, a pending question, a history
  and an answer that is not blank does succeed. Nothing else on the request path changes
  the length: the detached weakness analysis rewrites one entry in place, and next-question
  leaves the history untouched (the result, transcript and TTS handlers assign nothing to
  the session).
\<close>

theorem submission_appends_one_item:
  "(\<forall>b. fst (submit_answer cfg env s ans na now) = TimeUpJson b
      \<longrightarrow> (\<exists>h item a.
             history s = Some h
             \<and> history (fst (snd (submit_answer cfg env s ans na now))) = Some (h @ [item])
             \<and> length (h @ [item]) = length h + 1
             \<and> question item = current_question s
             \<and> ans = JStr a \<and> answer item = trim a))
   \<and> ((\<forall>b. fst (submit_answer cfg env s ans na now) \<noteq> TimeUpJson b)
      \<longrightarrow> history (fst (snd (submit_answer cfg env s ans na now))) = history s)
   \<and> (\<forall>a h. profile s \<noteq> None \<and> truthy (current_question s) \<and> ans = JStr a \<and> trim a \<noteq> []
            \<and> history s = Some h
      \<longrightarrow> (\<exists>b. fst (submit_answer cfg env s ans na now) = TimeUpJson b))
   \<and> map_option length (history (weakness_analysis_done s it reply)) = map_option length (history s)
   \<and> history (fst (snd (next_question cfg env s now nl sr qr ns))) = history s"
proof (intro conjI allI impI)
  fix b
  assume t: "fst (submit_answer cfg env s ans na now) = TimeUpJson b"
  then obtain a h where a: "ans = JStr a" "trim a \<noteq> []" "profile s \<noteq> None"
      "truthy (current_question s)" "history s = Some h"
    using submit_answer_cases [of cfg env s ans na now] by auto
  let ?item = "\<lparr>question = current_question s, answer = trim a,
                 weakness = lit ''Analyzing...'',
                 askedAt = (case current_question_started_at s of
                              None \<Rightarrow> None
                            | Some t \<Rightarrow> if t = 0 then None else Some t),
                 answeredAt = na, source = lit ''speech_to_text''\<rparr>"
  have "history (fst (snd (submit_answer cfg env s ans na now))) = Some (h @ [?item])"
    using a by (simp add: submit_answer_accepted)
  then show "\<exists>h item a.
             history s = Some h
             \<and> history (fst (snd (submit_answer cfg env s ans na now))) = Some (h @ [item])
             \<and> length (h @ [item]) = length h + 1
             \<and> question item = current_question s
             \<and> ans = JStr a \<and> answer item = trim a"
    using a by (intro exI [of _ h] exI [of _ ?item] exI [of _ a]) simp
next
  assume "\<forall>b. fst (submit_answer cfg env s ans na now) \<noteq> TimeUpJson b"
  then show "history (fst (snd (submit_answer cfg env s ans na now))) = history s"
    using submit_answer_state_cases [of cfg env s ans na now] by auto
next
  fix a h
  assume "profile s \<noteq> None \<and> truthy (current_question s) \<and> ans = JStr a \<and> trim a \<noteq> []
            \<and> history s = Some h"
  then show "\<exists>b. fst (submit_answer cfg env s ans na now) = TimeUpJson b"
    by (simp add: submit_answer_accepted)
next
  show "map_option length (history (weakness_analysis_done s it reply)) = map_option length (history s)"
    by (rule weakness_analysis_done_length)
next
  show "history (fst (snd (next_question cfg env s now nl sr qr ns))) = history s"
    by (rule next_question_history)
qed

theorem submission_appends_one_item_witness:
  "fst (submit_answer sample_config sample_env
          (sample_session [sample_item] (JStr (lit ''Why this role?''))) (JStr (lit '' I like it '')) 2000 2001)
     = TimeUpJson False
   \<and> map_option length
        (history (fst (snd (submit_answer sample_config sample_env
          (sample_session [sample_item] (JStr (lit ''Why this role?''))) (JStr (lit '' I like it '')) 2000 2001))))
     = Some 2"
proof -
  let ?s = "sample_session [sample_item] (JStr (lit ''Why this role?''))"
  have t: "trim (lit '' I like it '') = lit ''I like it''"
    by (simp add: trim_def lit_def is_ws_def)
  have pre: "profile ?s \<noteq> None \<and> truthy (current_question ?s)
             \<and> JStr (lit '' I like it '') = JStr (lit '' I like it '') \<and> trim (lit '' I like it '') \<noteq> []
             \<and> history ?s = Some [sample_item]"
    by (simp add: sample_session_def t lit_Nil_iff)
  have e: "end_time sample_env ?s = Num 60000"
    by (simp add: end_time_def opt_number_def sample_session_def exact_int_def)
  obtain b where b: "fst (submit_answer sample_config sample_env ?s (JStr (lit '' I like it '')) 2000 2001)
                     = TimeUpJson b"
    using submission_appends_one_item [of sample_config sample_env ?s "JStr (lit '' I like it '')" 2000 2001,
        THEN conjunct2, THEN conjunct2, THEN conjunct1] pre
    by blast
  have b': "b = False"
    using b pre by (simp add: submit_answer_accepted [where h = "[sample_item]"] e js_ge_def)
  obtain h item where hh: "history ?s = Some h"
    and hi: "history (fst (snd (submit_answer sample_config sample_env ?s (JStr (lit '' I like it '')) 2000 2001)))
          = Some (h @ [item])"
    using submission_appends_one_item [of sample_config sample_env ?s "JStr (lit '' I like it '')" 2000 2001,
        THEN conjunct1] b
    by blast
  have "h = [sample_item]" using hh pre by simp
  then have "map_option length
        (history (fst (snd (submit_answer sample_config sample_env ?s (JStr (lit '' I like it '')) 2000 2001))))
     = Some 2"
    by (simp add: hi)
  then show ?thesis using b b' by simp
qed

section \<open>Speech synthesis\<close>

text \<open>
  Claim C9. A TTS request whose text is absent, or is a string that trims to the empty
  string (in general: whose text converts to a string that trims to the empty string), is
  answered with status 400 and nothing is sent to the speech collaborator. Otherwise at
  most one request is sent, and the input of a request that is sent is the trimmed text cut
  to its first 4096 code units: at most 4096 long, and the trimmed text itself when that
  is at most 4096 long. When no request is sent the answer is status 500 with
  \<open>TTS failed\<close>; exactly one request is sent whenever the voice, the speed and the
  instructions are not arrays or objects, and then the answer is the audio when the
  collaborator succeeds. When the collaborator fails the answer is status 500 with
  \<open>TTS failed\<close>. A text that is a string converts to itself, and a text whose conversion
  throws is answered with status 500, nothing being sent.
\<close>

theorem tts_text_required_and_truncated:
  "(\<forall>t. to_string env (nullish text (JStr [])) = Some t \<and> trim t = []
      \<longrightarrow> tts cfg env s text voice speed instructions reply = (ErrorJson 400 (lit ''text required''), []))
   \<and> (text = JUndefined \<or> text = JNull \<or> (\<exists>t. text = JStr t \<and> trim t = [])
      \<longrightarrow> tts cfg env s text voice speed instructions reply = (ErrorJson 400 (lit ''text required''), []))
   \<and> (\<forall>t. to_string env (nullish text (JStr [])) = Some t \<and> trim t \<noteq> []
      \<longrightarrow> (snd (tts cfg env s text voice speed instructions reply) = []
            \<and> fst (tts cfg env s text voice speed instructions reply)
                = ErrorJson 500 (lit ''TTS failed'')
           \<or> (\<exists>r. snd (tts cfg env s text voice speed instructions reply) = [r]
               \<and> input r = take 4096 (trim t)
               \<and> length (input r) \<le> 4096
               \<and> (length (trim t) \<le> 4096 \<longrightarrow> input r = trim t)))
          \<and> (\<not> is_object voice \<and> \<not> is_object speed \<and> \<not> is_object instructions
               \<longrightarrow> (\<exists>r. snd (tts cfg env s text voice speed instructions reply) = [r]
                       \<and> input r = take 4096 (trim t)
                       \<and> length (input r) \<le> 4096
                       \<and> (length (trim t) \<le> 4096 \<longrightarrow> input r = trim t))
                   \<and> (\<forall>bytes. reply = Audio bytes
                         \<longrightarrow> fst (tts cfg env s text voice speed instructions reply)
                               = AudioMpeg bytes))
          \<and> (reply = SpeechFailed
               \<longrightarrow> fst (tts cfg env s text voice speed instructions reply)
                     = ErrorJson 500 (lit ''TTS failed'')))
   \<and> (\<forall>t. text = JStr t \<longrightarrow> to_string env (nullish text (JStr [])) = Some t)
   \<and> (to_string env (nullish text (JStr [])) = None
      \<longrightarrow> tts cfg env s text voice speed instructions reply = (ErrorJson 500 (lit ''TTS failed''), []))"
proof (intro conjI impI allI)
  fix t
  assume "to_string env (nullish text (JStr [])) = Some t \<and> trim t = []"
  then show "tts cfg env s text voice speed instructions reply = (ErrorJson 400 (lit ''text required''), [])"
    by (simp add: tts_def)
next
  assume "text = JUndefined \<or> text = JNull \<or> (\<exists>t. text = JStr t \<and> trim t = [])"
  then obtain t where "to_string env (nullish text (JStr [])) = Some t" "trim t = []"
    by (auto simp add: nullish_def trim_def)
  then show "tts cfg env s text voice speed instructions reply = (ErrorJson 400 (lit ''text required''), [])"
    by (simp add: tts_def)
next
  fix t
  assume a: "to_string env (nullish text (JStr [])) = Some t \<and> trim t \<noteq> []"
  note d = tts_sent [OF a [THEN conjunct1] a [THEN conjunct2], of cfg s voice speed instructions reply]
  show "snd (tts cfg env s text voice speed instructions reply) = []
            \<and> fst (tts cfg env s text voice speed instructions reply)
                = ErrorJson 500 (lit ''TTS failed'')
           \<or> (\<exists>r. snd (tts cfg env s text voice speed instructions reply) = [r]
               \<and> input r = take 4096 (trim t)
               \<and> length (input r) \<le> 4096
               \<and> (length (trim t) \<le> 4096 \<longrightarrow> input r = trim t))"
    using d by auto
next
  fix t
  assume a: "to_string env (nullish text (JStr [])) = Some t \<and> trim t \<noteq> []"
    and b: "\<not> is_object voice \<and> \<not> is_object speed \<and> \<not> is_object instructions"
  note d = tts_handled [OF a [THEN conjunct1] a [THEN conjunct2] b [THEN conjunct1]
      b [THEN conjunct2, THEN conjunct1] b [THEN conjunct2, THEN conjunct2], of cfg s reply]
  show "\<exists>r. snd (tts cfg env s text voice speed instructions reply) = [r]
                       \<and> input r = take 4096 (trim t)
                       \<and> length (input r) \<le> 4096
                       \<and> (length (trim t) \<le> 4096 \<longrightarrow> input r = trim t)"
    using d by auto
next
  fix t bytes
  assume a: "to_string env (nullish text (JStr [])) = Some t \<and> trim t \<noteq> []"
    and b: "\<not> is_object voice \<and> \<not> is_object speed \<and> \<not> is_object instructions"
    and r: "reply = Audio bytes"
  note d = tts_handled [OF a [THEN conjunct1] a [THEN conjunct2] b [THEN conjunct1]
      b [THEN conjunct2, THEN conjunct1] b [THEN conjunct2, THEN conjunct2], of cfg s reply]
  show "fst (tts cfg env s text voice speed instructions reply) = AudioMpeg bytes"
    using d r by auto
next
  fix t
  assume a: "to_string env (nullish text (JStr [])) = Some t \<and> trim t \<noteq> []"
    and r: "reply = SpeechFailed"
  note d = tts_sent [OF a [THEN conjunct1] a [THEN conjunct2], of cfg s voice speed instructions reply]
  show "fst (tts cfg env s text voice speed instructions reply) = ErrorJson 500 (lit ''TTS failed'')"
    using d r by auto
next
  fix t
  assume "text = JStr t"
  then show "to_string env (nullish text (JStr [])) = Some t"
    by (simp add: nullish_def)
next
  assume "to_string env (nullish text (JStr [])) = None"
  then show "tts cfg env s text voice speed instructions reply = (ErrorJson 500 (lit ''TTS failed''), [])"
    by (simp add: tts_def)
qed

theorem tts_text_required_and_truncated_witness:
  "tts sample_config sample_env fresh_session (JStr (lit ''   '')) JUndefined JUndefined JUndefined
       SpeechFailed
     = (ErrorJson 400 (lit ''text required''), [])
   \<and> map input (snd (tts sample_config sample_env fresh_session
                         (JStr (lit '' hello '' @ replicate 5000 0x61)) JUndefined JUndefined JUndefined
                         SpeechFailed))
     = [lit ''hello '' @ replicate 4090 0x61]
   \<and> fst (tts sample_config sample_env fresh_session
            (JStr (lit '' hello '' @ replicate 5000 0x61)) JUndefined JUndefined JUndefined SpeechFailed)
     = ErrorJson 500 (lit ''TTS failed'')"
proof -
  let ?long = "lit '' hello '' @ replicate 5000 (0x61 :: jschar)"
  have b: "trim (lit ''   '') = []"
    by (simp add: trim_def lit_def is_ws_def)
  have a: "\<not> is_ws 0x61" by (simp add: is_ws_def)
  have "dropWhile is_ws (rev (replicate 5000 (0x61 :: jschar)) @ rev (lit ''hello ''))
          = rev (replicate 5000 (0x61 :: jschar)) @ rev (lit ''hello '')"
    using a by (simp add: dropWhile_append1)
  then have t: "trim ?long = lit ''hello '' @ replicate 5000 0x61"
    by (simp add: trim_def lit_def is_ws_def)
  have k: "take 4096 (lit ''hello '' @ replicate 5000 (0x61 :: jschar)) = lit ''hello '' @ replicate 4090 0x61"
    by (simp add: length_lit)
  have ne: "lit ''hello '' @ replicate 5000 (0x61 :: jschar) \<noteq> []"
    by (simp add: lit_def)
  have blank: "JStr (lit ''   '') = JUndefined \<or> JStr (lit ''   '') = JNull
               \<or> (\<exists>t. JStr (lit ''   '') = JStr t \<and> trim t = [])"
    using b by simp
  have conv: "to_string sample_env (nullish (JStr ?long) (JStr [])) = Some ?long \<and> trim ?long \<noteq> []"
    by (simp add: nullish_def t ne)
  have prim: "\<not> is_object JUndefined \<and> \<not> is_object JUndefined \<and> \<not> is_object JUndefined"
    by (simp add: is_object_def)
  note long = tts_text_required_and_truncated [of sample_env "JStr ?long" sample_config
        fresh_session JUndefined JUndefined JUndefined SpeechFailed,
        THEN conjunct2, THEN conjunct2, THEN conjunct1, THEN spec, THEN mp, OF conv]
  have 1: "tts sample_config sample_env fresh_session (JStr (lit ''   '')) JUndefined JUndefined
             JUndefined SpeechFailed = (ErrorJson 400 (lit ''text required''), [])"
    by (rule tts_text_required_and_truncated [THEN conjunct2, THEN conjunct1, THEN mp, OF blank])
  obtain r where r: "snd (tts sample_config sample_env fresh_session (JStr ?long) JUndefined JUndefined
                         JUndefined SpeechFailed) = [r]"
    and i: "input r = take 4096 (trim ?long)"
    using long [THEN conjunct2, THEN conjunct1, THEN mp, OF prim, THEN conjunct1]
    by (elim exE conjE)
  have i2: "input r = lit ''hello '' @ replicate 4090 0x61"
    unfolding i t k by (rule refl)
  have 2: "map input (snd (tts sample_config sample_env fresh_session (JStr ?long) JUndefined
                         JUndefined JUndefined SpeechFailed))
             = [lit ''hello '' @ replicate 4090 0x61]"
    by (simp add: r i2)
  have 3: "fst (tts sample_config sample_env fresh_session (JStr ?long) JUndefined JUndefined
                  JUndefined SpeechFailed) = ErrorJson 500 (lit ''TTS failed'')"
    by (rule long [THEN conjunct2, THEN conjunct2, THEN mp, OF refl])
  show ?thesis
    by (intro conjI) (rule 1, rule 2, rule 3)
qed

section \<open>Rejected answer submissions\<close>

text \<open>
  Claim C10. An answer submission on a session without a profile or without a pending
  question is answered with status 400 and \<open>Invalid state\<close>; one whose answer is absent,
  empty or made of white space only is answered with status 400 and \<open>Answer required\<close>.
  Every submission answered with an error body has status 400 and one of these causes,
  leaves the whole session as it was (history, \<open>current_question\<close> and
  \<open>current_question_started_at\<close> included) and starts no weakness analysis: no request goes
  to the completion collaborator.
\<close>

theorem rejected_submission_changes_nothing:
  "(profile s = None \<or> \<not> truthy (current_question s)
      \<longrightarrow> submit_answer cfg env s ans na now = (ErrorJson 400 (lit ''Invalid state''), s, []))
   \<and> (profile s \<noteq> None \<and> truthy (current_question s)
        \<and> (\<not> truthy ans \<or> (\<exists>a. ans = JStr a \<and> trim a = []))
      \<longrightarrow> submit_answer cfg env s ans na now = (ErrorJson 400 (lit ''Answer required''), s, []))
   \<and> (\<forall>n m. fst (submit_answer cfg env s ans na now) = ErrorJson n m
      \<longrightarrow> n = 400
          \<and> fst (snd (submit_answer cfg env s ans na now)) = s
          \<and> snd (snd (submit_answer cfg env s ans na now)) = []
          \<and> (profile s = None \<or> \<not> truthy (current_question s) \<or> \<not> truthy ans
              \<or> (\<exists>a. ans = JStr a \<and> trim a = [])))"
proof (intro conjI impI allI)
  assume "profile s = None \<or> \<not> truthy (current_question s)"
  then show "submit_answer cfg env s ans na now = (ErrorJson 400 (lit ''Invalid state''), s, [])"
    by (rule submit_answer_rejected_state)
next
  assume "profile s \<noteq> None \<and> truthy (current_question s)
        \<and> (\<not> truthy ans \<or> (\<exists>a. ans = JStr a \<and> trim a = []))"
  then show "submit_answer cfg env s ans na now = (ErrorJson 400 (lit ''Answer required''), s, [])"
    by (simp add: submit_answer_rejected_answer)
next
  fix n m
  assume e: "fst (submit_answer cfg env s ans na now) = ErrorJson n m"
  have c: "(\<exists>m. submit_answer cfg env s ans na now = (ErrorJson 400 m, s, []))
     \<or> (\<exists>a h. ans = JStr a \<and> trim a \<noteq> [] \<and> profile s \<noteq> None \<and> truthy (current_question s)
          \<and> history s = Some h)"
    using submit_answer_cases [of cfg env s ans na now] e by auto
  have ok: "\<exists>m. submit_answer cfg env s ans na now = (ErrorJson 400 m, s, [])"
    using c e by (auto simp add: submit_answer_accepted)
  show "n = 400" using ok e by auto
  show "fst (snd (submit_answer cfg env s ans na now)) = s" using ok by auto
  show "snd (snd (submit_answer cfg env s ans na now)) = []" using ok by auto
  show "profile s = None \<or> \<not> truthy (current_question s) \<or> \<not> truthy ans
              \<or> (\<exists>a. ans = JStr a \<and> trim a = [])"
    using e submit_answer_not_rejected [of s ans cfg env na now] by blast
qed

theorem rejected_submission_changes_nothing_witness:
  "submit_answer sample_config sample_env fresh_session (JStr (lit ''I like it'')) 2000 2000
     = (ErrorJson 400 (lit ''Invalid state''), fresh_session, [])
   \<and> submit_answer sample_config sample_env (sample_session [] JNull) (JStr (lit ''I like it'')) 2000 2000
     = (ErrorJson 400 (lit ''Invalid state''), sample_session [] JNull, [])
   \<and> submit_answer sample_config sample_env (sample_session [] (JStr (lit ''Why this role?'')))
        (JStr (lit ''   '')) 2000 2000
     = (ErrorJson 400 (lit ''Answer required''), sample_session [] (JStr (lit ''Why this role?'')), [])"
proof -
  have b: "trim (lit ''   '') = []"
    by (simp add: trim_def lit_def is_ws_def)
  have 1: "submit_answer sample_config sample_env fresh_session (JStr (lit ''I like it'')) 2000 2000
     = (ErrorJson 400 (lit ''Invalid state''), fresh_session, [])"
    by (rule rejected_submission_changes_nothing [THEN conjunct1, THEN mp])
      (simp add: fresh_session_def)
  have 2: "submit_answer sample_config sample_env (sample_session [] JNull) (JStr (lit ''I like it'')) 2000 2000
     = (ErrorJson 400 (lit ''Invalid state''), sample_session [] JNull, [])"
    by (rule rejected_submission_changes_nothing [THEN conjunct1, THEN mp])
      (simp add: sample_session_def)
  have 3: "submit_answer sample_config sample_env (sample_session [] (JStr (lit ''Why this role?'')))
        (JStr (lit ''   '')) 2000 2000
     = (ErrorJson 400 (lit ''Answer required''), sample_session [] (JStr (lit ''Why this role?'')), [])"
    by (rule rejected_submission_changes_nothing [THEN conjunct2, THEN conjunct1, THEN mp])
      (simp add: sample_session_def b lit_Nil_iff)
  show ?thesis using 1 2 3 by (intro conjI)
qed

end
